theory Spec2Isabelle
  imports Complex_Main
begin

text \<open>
  A shallow embedding of the worker-health simulation engine (\<^verbatim>\<open>simulation.ts\<close>) and of
  the two model loaders behind its risk oracle (\<^verbatim>\<open>modelLoader.ts\<close> and the JavaScript
  loader), with the properties of the signal generator, the termination policy, the
  simulation loop, the progress reporter and the loaders' \<^verbatim>\<open>predict\<close>.
\<close>

section \<open>Numbers\<close>

text \<open>
  The simulation engine computes on JavaScript numbers.  They are modelled as reals: every
  finite double the engine can hold is a real, and the arithmetic of the source
  (\<^verbatim>\<open>+\<close>, \<^verbatim>\<open>-\<close>, \<^verbatim>\<open>*\<close>, \<^verbatim>\<open>Math.min\<close>, \<^verbatim>\<open>Math.max\<close>) is
  taken exactly.  \<^verbatim>\<open>Math.round\<close> rounds to the nearest integer, a tie going towards
  plus infinity.  A division whose divisor is zero does not give a finite number in
  JavaScript; \<open>js_div\<close> returns \<open>None\<close> there.
\<close>

definition Math_round :: "real \<Rightarrow> real" where
  "Math_round x = of_int \<lfloor>x + 1 / 2\<rfloor>"

definition js_div :: "real \<Rightarrow> real \<Rightarrow> real option" where
  "js_div a b = (if b = 0 then None else Some (a / b))"

section \<open>Configuration constants of simulation.ts\<close>

definition DEFAULT_SIMULATION_INTERVAL :: nat where "DEFAULT_SIMULATION_INTERVAL = 500"
definition TEMPERATURE_INCREMENT :: real where "TEMPERATURE_INCREMENT = 1.2"
definition HUMIDITY_INCREMENT :: real where "HUMIDITY_INCREMENT = 3.5"
definition MAX_TEMPERATURE :: real where "MAX_TEMPERATURE = 34"
definition MIN_TEMPERATURE :: real where "MIN_TEMPERATURE = 10"
definition MAX_HUMIDITY :: real where "MAX_HUMIDITY = 90"
definition MIN_HUMIDITY :: real where "MIN_HUMIDITY = 20"

definition HRV_INCREASE_RMSSD :: real where "HRV_INCREASE_RMSSD = 1.04"
definition HRV_INCREASE_SDNN :: real where "HRV_INCREASE_SDNN = 1.03"
definition HRV_INCREASE_PNN50 :: real where "HRV_INCREASE_PNN50 = 1.05"
definition HRV_INCREASE_POWER :: real where "HRV_INCREASE_POWER = 1.06"
definition HRV_INCREASE_LF :: real where "HRV_INCREASE_LF = 1.03"
definition HRV_INCREASE_HF :: real where "HRV_INCREASE_HF = 1.08"

definition HRV_DECREASE_RMSSD :: real where "HRV_DECREASE_RMSSD = 0.96"
definition HRV_DECREASE_SDNN :: real where "HRV_DECREASE_SDNN = 0.97"
definition HRV_DECREASE_PNN50 :: real where "HRV_DECREASE_PNN50 = 0.93"
definition HRV_DECREASE_POWER :: real where "HRV_DECREASE_POWER = 0.92"
definition HRV_DECREASE_LF :: real where "HRV_DECREASE_LF = 0.94"
definition HRV_DECREASE_HF :: real where "HRV_DECREASE_HF = 0.90"
definition HEART_RATE_STRESS_INCREMENT :: real where "HEART_RATE_STRESS_INCREMENT = 1.5"
definition HEART_RATE_RECOVERY_DECREMENT :: real where "HEART_RATE_RECOVERY_DECREMENT = 1.2"

definition MAX_SIMULATION_STEPS :: nat where "MAX_SIMULATION_STEPS = 100"

section \<open>Workers and partial workers\<close>

text \<open>
  The fields of \<^verbatim>\<open>Worker\<close> that the engine reads or writes.  The risk annotation
  (\<open>riskScore\<close>, \<open>predictedClass\<close>, \<open>confidence\<close>) is optional on a worker: \<open>None\<close> is
  JavaScript's \<^verbatim>\<open>undefined\<close>.  The two quotients \<open>hrv_lf_hf_ratio\<close> and
  \<open>hrv_cvnni\<close> are \<open>None\<close> when they are not a finite number.
\<close>

datatype simulationType = Heatup | Cooldown

record Worker =
  worker_id :: string
  name :: string
  temperature :: real
  humidity :: real
  hrv_mean_hr :: real
  hrv_rmssd :: real
  hrv_sdnn :: real
  hrv_mean_nni :: real
  hrv_pnni_50 :: real
  hrv_total_power :: real
  hrv_lf :: real
  hrv_hf :: real
  hrv_min_hr :: real
  hrv_max_hr :: real
  hrv_std_hr :: real
  hrv_lf_hf_ratio :: "real option"
  hrv_median_nni :: real
  hrv_range_nni :: real
  hrv_cvnni :: "real option"
  riskScore :: "real option"
  predictedClass :: "string option"
  confidence :: "real option"

text \<open>
  \<^verbatim>\<open>Partial<Worker>\<close>: an object holding some of the keys of a worker.  A key that the
  object does not have is \<open>None\<close>; a key it has is \<open>Some v\<close>, so the key
  \<^verbatim>\<open>riskScore: undefined\<close> is \<open>Some None\<close>.
\<close>

record PartialWorker =
  upd_id :: "string option"
  upd_name :: "string option"
  upd_temperature :: "real option"
  upd_humidity :: "real option"
  upd_hrv_mean_hr :: "real option"
  upd_hrv_rmssd :: "real option"
  upd_hrv_sdnn :: "real option"
  upd_hrv_mean_nni :: "real option"
  upd_hrv_pnni_50 :: "real option"
  upd_hrv_total_power :: "real option"
  upd_hrv_lf :: "real option"
  upd_hrv_hf :: "real option"
  upd_hrv_min_hr :: "real option"
  upd_hrv_max_hr :: "real option"
  upd_hrv_std_hr :: "real option"
  upd_hrv_lf_hf_ratio :: "real option option"
  upd_hrv_median_nni :: "real option"
  upd_hrv_range_nni :: "real option"
  upd_hrv_cvnni :: "real option option"
  upd_riskScore :: "real option option"
  upd_predictedClass :: "string option option"
  upd_confidence :: "real option option"

definition noKeys :: PartialWorker where
  "noKeys = \<lparr> upd_id = None, upd_name = None, upd_temperature = None, upd_humidity = None,
     upd_hrv_mean_hr = None, upd_hrv_rmssd = None, upd_hrv_sdnn = None,
     upd_hrv_mean_nni = None, upd_hrv_pnni_50 = None, upd_hrv_total_power = None,
     upd_hrv_lf = None, upd_hrv_hf = None, upd_hrv_min_hr = None, upd_hrv_max_hr = None,
     upd_hrv_std_hr = None, upd_hrv_lf_hf_ratio = None, upd_hrv_median_nni = None,
     upd_hrv_range_nni = None, upd_hrv_cvnni = None, upd_riskScore = None,
     upd_predictedClass = None, upd_confidence = None \<rparr>"

text \<open>One key of an object spread \<^verbatim>\<open>{...w, ...u}\<close>: the key of \<open>u\<close> wins when \<open>u\<close> has it.\<close>

definition key :: "'a \<Rightarrow> 'a option \<Rightarrow> 'a" where
  "key old new = (case new of None \<Rightarrow> old | Some v \<Rightarrow> v)"

text \<open>The object spread \<^verbatim>\<open>{...w, ...u}\<close> of a worker and a partial worker.\<close>

definition spread :: "Worker \<Rightarrow> PartialWorker \<Rightarrow> Worker" where
  "spread w u =
     \<lparr> worker_id = key (worker_id w) (upd_id u),
       name = key (name w) (upd_name u),
       temperature = key (temperature w) (upd_temperature u),
       humidity = key (humidity w) (upd_humidity u),
       hrv_mean_hr = key (hrv_mean_hr w) (upd_hrv_mean_hr u),
       hrv_rmssd = key (hrv_rmssd w) (upd_hrv_rmssd u),
       hrv_sdnn = key (hrv_sdnn w) (upd_hrv_sdnn u),
       hrv_mean_nni = key (hrv_mean_nni w) (upd_hrv_mean_nni u),
       hrv_pnni_50 = key (hrv_pnni_50 w) (upd_hrv_pnni_50 u),
       hrv_total_power = key (hrv_total_power w) (upd_hrv_total_power u),
       hrv_lf = key (hrv_lf w) (upd_hrv_lf u),
       hrv_hf = key (hrv_hf w) (upd_hrv_hf u),
       hrv_min_hr = key (hrv_min_hr w) (upd_hrv_min_hr u),
       hrv_max_hr = key (hrv_max_hr w) (upd_hrv_max_hr u),
       hrv_std_hr = key (hrv_std_hr w) (upd_hrv_std_hr u),
       hrv_lf_hf_ratio = key (hrv_lf_hf_ratio w) (upd_hrv_lf_hf_ratio u),
       hrv_median_nni = key (hrv_median_nni w) (upd_hrv_median_nni u),
       hrv_range_nni = key (hrv_range_nni w) (upd_hrv_range_nni u),
       hrv_cvnni = key (hrv_cvnni w) (upd_hrv_cvnni u),
       riskScore = key (riskScore w) (upd_riskScore u),
       predictedClass = key (predictedClass w) (upd_predictedClass u),
       confidence = key (confidence w) (upd_confidence u) \<rparr>"

section \<open>The signal generator\<close>

text \<open>
  \<^verbatim>\<open>calculateNextSimulationValues\<close>: the next environmental and HRV values of a worker
  in a mode.  The returned object has seventeen keys; the first ten are perturbed from
  the current worker, the last seven are recomputed from the new values.
\<close>

definition calculateNextSimulationValues :: "Worker \<Rightarrow> simulationType \<Rightarrow> PartialWorker" where
  "calculateNextSimulationValues currentWorker simulationType =
    (let currentTemp = temperature currentWorker;
         currentHumidity = humidity currentWorker;
         currentMeanHR = hrv_mean_hr currentWorker;
         currentRMSSD = hrv_rmssd currentWorker;
         currentSDNN = hrv_sdnn currentWorker;
         currentMeanNNI = hrv_mean_nni currentWorker;
         currentPNN50 = hrv_pnni_50 currentWorker;
         currentTotalPower = hrv_total_power currentWorker;
         currentLF = hrv_lf currentWorker;
         currentHF = hrv_hf currentWorker;
         newTemp = (case simulationType of
             Heatup \<Rightarrow> min MAX_TEMPERATURE (currentTemp + TEMPERATURE_INCREMENT)
           | Cooldown \<Rightarrow> max MIN_TEMPERATURE (currentTemp - TEMPERATURE_INCREMENT));
         newHumidity = (case simulationType of
             Heatup \<Rightarrow> min MAX_HUMIDITY (currentHumidity + HUMIDITY_INCREMENT)
           | Cooldown \<Rightarrow> max MIN_HUMIDITY (currentHumidity - HUMIDITY_INCREMENT));
         newMeanHR = (case simulationType of
             Heatup \<Rightarrow> min 110 (currentMeanHR + HEART_RATE_STRESS_INCREMENT)
           | Cooldown \<Rightarrow> max 50 (currentMeanHR - HEART_RATE_RECOVERY_DECREMENT));
         newRMSSD = (case simulationType of
             Heatup \<Rightarrow> min 120 (currentRMSSD * HRV_INCREASE_RMSSD)
           | Cooldown \<Rightarrow> max 15 (currentRMSSD * HRV_DECREASE_RMSSD));
         newSDNN = (case simulationType of
             Heatup \<Rightarrow> min 150 (currentSDNN * HRV_INCREASE_SDNN)
           | Cooldown \<Rightarrow> max 20 (currentSDNN * HRV_DECREASE_SDNN));
         newMeanNNI = (case simulationType of
             Heatup \<Rightarrow> min 1200 (currentMeanNNI * 1.04)
           | Cooldown \<Rightarrow> min 1200 (currentMeanNNI * 1.04));
         newPNN50 = (case simulationType of
             Heatup \<Rightarrow> min 50 (currentPNN50 * HRV_INCREASE_PNN50)
           | Cooldown \<Rightarrow> max 5 (currentPNN50 * HRV_DECREASE_PNN50));
         newTotalPower = (case simulationType of
             Heatup \<Rightarrow> min 5000 (currentTotalPower * HRV_INCREASE_POWER)
           | Cooldown \<Rightarrow> max 800 (currentTotalPower * HRV_DECREASE_POWER));
         newLF = (case simulationType of
             Heatup \<Rightarrow> min 1500 (currentLF * HRV_INCREASE_LF)
           | Cooldown \<Rightarrow> max 200 (currentLF * HRV_DECREASE_LF));
         newHF = (case simulationType of
             Heatup \<Rightarrow> min 1000 (currentHF * HRV_INCREASE_HF)
           | Cooldown \<Rightarrow> max 100 (currentHF * HRV_DECREASE_HF))
     in \<lparr> upd_id = None, upd_name = None,
          upd_temperature = Some (Math_round (newTemp * 10) / 10),
          upd_humidity = Some (Math_round (newHumidity * 10) / 10),
          upd_hrv_mean_hr = Some (Math_round (newMeanHR * 10) / 10),
          upd_hrv_rmssd = Some (Math_round (newRMSSD * 10) / 10),
          upd_hrv_sdnn = Some (Math_round (newSDNN * 10) / 10),
          upd_hrv_mean_nni = Some (Math_round newMeanNNI),
          upd_hrv_pnni_50 = Some (Math_round (newPNN50 * 10) / 10),
          upd_hrv_total_power = Some (Math_round newTotalPower),
          upd_hrv_lf = Some (Math_round newLF),
          upd_hrv_hf = Some (Math_round newHF),
          upd_hrv_min_hr = Some (Math_round ((newMeanHR - 15) * 10) / 10),
          upd_hrv_max_hr = Some (Math_round ((newMeanHR + 25) * 10) / 10),
          upd_hrv_std_hr = Some (Math_round ((newSDNN * 0.3) * 10) / 10),
          upd_hrv_lf_hf_ratio =
            Some (map_option (\<lambda>q. Math_round (q * 100) / 100) (js_div newLF newHF)),
          upd_hrv_median_nni = Some (Math_round (newMeanNNI * 0.98)),
          upd_hrv_range_nni = Some (Math_round (newSDNN * 8)),
          upd_hrv_cvnni =
            Some (map_option (\<lambda>q. Math_round (q * 1000) / 1000) (js_div newSDNN newMeanNNI)),
          upd_riskScore = None, upd_predictedClass = None, upd_confidence = None \<rparr>)"

section \<open>The progress reporter\<close>

definition getSimulationProgress :: "real \<Rightarrow> real \<Rightarrow> simulationType \<Rightarrow> real" where
  "getSimulationProgress currentTemp currentHumidity simulationType =
    (case simulationType of
       Heatup \<Rightarrow>
         (let tempProgress =
                min 100 (((currentTemp - MIN_TEMPERATURE) / (MAX_TEMPERATURE - MIN_TEMPERATURE)) * 100);
              humidityProgress =
                min 100 (((currentHumidity - MIN_HUMIDITY) / (MAX_HUMIDITY - MIN_HUMIDITY)) * 100)
          in (tempProgress + humidityProgress) / 2)
     | Cooldown \<Rightarrow>
         (let tempProgress =
                min 100 (((MAX_TEMPERATURE - currentTemp) / (MAX_TEMPERATURE - MIN_TEMPERATURE)) * 100);
              humidityProgress =
                min 100 (((MAX_HUMIDITY - currentHumidity) / (MAX_HUMIDITY - MIN_HUMIDITY)) * 100)
          in (tempProgress + humidityProgress) / 2))"

section \<open>The simulation loop\<close>

text \<open>
  The reply of the risk oracle (\<^verbatim>\<open>predictWorkerRisk\<close>): the awaited promise either
  resolves with a prediction or rejects with an error, whose message is kept.
\<close>

record PredictionResponse =
  risk_score :: real
  predicted_class :: string
  pred_confidence :: real

datatype OracleResult = Resolved PredictionResponse | Rejected string

text \<open>The handle of a running interval timer, with its period in milliseconds.\<close>

datatype Timeout = Timeout nat

text \<open>The context object handed to the \<^verbatim>\<open>onError\<close> callback with the error.\<close>

record ErrorContext =
  err_message :: string
  err_step :: nat
  err_simulationType :: simulationType
  err_errorCount :: nat
  err_consecutiveErrors :: nat

text \<open>
  The state of one \<^verbatim>\<open>useSimulation\<close> hook: its parameters, its refs, the displayed
  \<^verbatim>\<open>simulationState\<close> (fields \<open>ui_\<close>), and what it has sent out so far: the calls
  of \<^verbatim>\<open>onWorkerUpdate\<close>, the calls of \<^verbatim>\<open>onError\<close>, and the reasons logged by
  \<^verbatim>\<open>stopSimulation\<close>.  The empty object \<^verbatim>\<open>{}\<close> of \<open>currentValues\<close> is \<open>None\<close>.
\<close>

record SimState =
  workersRef :: "Worker list"
  simulationInterval :: nat
  onErrorGiven :: bool
  intervalRef :: "Timeout option"
  stepCountRef :: nat
  baselineValuesRef :: PartialWorker
  errorCountRef :: nat
  consecutiveErrorsRef :: nat
  simulationTypeRef :: "simulationType option"
  isActiveRef :: bool
  currentWorkerValuesRef :: "Worker option"
  ui_isActive :: bool
  ui_type :: "simulationType option"
  ui_targetWorker :: string
  ui_currentValues :: "Worker option"
  workerUpdates :: "(string \<times> PartialWorker) list"
  errorReports :: "ErrorContext list"
  stopLog :: "string list"

definition initialState :: "Worker list \<Rightarrow> nat \<Rightarrow> bool \<Rightarrow> SimState" where
  "initialState workers interval onError =
     \<lparr> workersRef = workers, simulationInterval = interval, onErrorGiven = onError,
       intervalRef = None, stepCountRef = 0, baselineValuesRef = noKeys,
       errorCountRef = 0, consecutiveErrorsRef = 0, simulationTypeRef = None,
       isActiveRef = False, currentWorkerValuesRef = None,
       ui_isActive = False, ui_type = None, ui_targetWorker = ''John Doe'',
       ui_currentValues = None,
       workerUpdates = [], errorReports = [], stopLog = [] \<rparr>"

definition clearSimulationInterval :: "SimState \<Rightarrow> SimState" where
  "clearSimulationInterval s =
     (if intervalRef s \<noteq> None then s\<lparr>intervalRef := None\<rparr> else s)"

text \<open>\<^verbatim>\<open>reason || 'Manual stop'\<close>: an absent or empty reason is logged as a manual stop.\<close>

definition reasonText :: "string option \<Rightarrow> string" where
  "reasonText reason =
     (case reason of None \<Rightarrow> ''Manual stop''
      | Some r \<Rightarrow> if r = [] then ''Manual stop'' else r)"

definition stopSimulation :: "string option \<Rightarrow> SimState \<Rightarrow> SimState" where
  "stopSimulation reason s =
     (let s1 = s\<lparr>stopLog := stopLog s @ [reasonText reason]\<rparr>;
          s2 = clearSimulationInterval s1
      in s2\<lparr> simulationTypeRef := None,
              isActiveRef := False,
              currentWorkerValuesRef := None,
              ui_isActive := False,
              ui_type := None,
              stepCountRef := 0,
              errorCountRef := 0,
              consecutiveErrorsRef := 0 \<rparr>)"

text \<open>Every render of the hook stores the current \<^verbatim>\<open>workers\<close> prop in its ref.\<close>

definition render :: "Worker list \<Rightarrow> SimState \<Rightarrow> SimState" where
  "render workers s = s\<lparr>workersRef := workers\<rparr>"

definition findTargetWorker :: "SimState \<Rightarrow> Worker option" where
  "findTargetWorker s = List.find (\<lambda>worker. name worker = ''John Doe'') (workersRef s)"

text \<open>The termination policy; the step count is read from the hook's ref.\<close>

definition shouldContinueSimulation :: "SimState \<Rightarrow> Worker \<Rightarrow> simulationType \<Rightarrow> bool" where
  "shouldContinueSimulation s currentWorker simulationType =
     (if stepCountRef s \<ge> MAX_SIMULATION_STEPS then False
      else
        (let temp = temperature currentWorker;
             humidity' = humidity currentWorker
         in case simulationType of
              Heatup \<Rightarrow> temp < MAX_TEMPERATURE \<or> humidity' < MAX_HUMIDITY
            | Cooldown \<Rightarrow> temp > MIN_TEMPERATURE \<or> humidity' > MIN_HUMIDITY))"

text \<open>
  \<^verbatim>\<open>performSimulationStep\<close> is an \<^verbatim>\<open>async\<close> function with one \<^verbatim>\<open>await\<close>, on the
  oracle's promise.  It runs in two parts.  The first part, up to the \<^verbatim>\<open>await\<close>,
  either stops the simulation or leaves a call to the oracle in flight; the locals that
  the second part reads (\<^verbatim>\<open>targetWorker\<close>, \<^verbatim>\<open>simulationType\<close>) are kept with the call.
\<close>

record InFlight =
  call_targetWorker :: Worker
  call_simulationType :: simulationType

definition performSimulationStep_begin :: "SimState \<Rightarrow> SimState \<times> InFlight option" where
  "performSimulationStep_begin s =
     (case simulationTypeRef s of
        None \<Rightarrow> (stopSimulation (Some ''Simulation no longer active'') s, None)
      | Some simulationType \<Rightarrow>
          if \<not> isActiveRef s
          then (stopSimulation (Some ''Simulation no longer active'') s, None)
          else
            (case currentWorkerValuesRef s of
               Some targetWorker \<Rightarrow>
                 (s, Some \<lparr> call_targetWorker = targetWorker,
                            call_simulationType = simulationType \<rparr>)
             | None \<Rightarrow>
                 (case findTargetWorker s of
                    Some targetWorker \<Rightarrow>
                      (s\<lparr>currentWorkerValuesRef := Some targetWorker\<rparr>,
                       Some \<lparr> call_targetWorker = targetWorker,
                              call_simulationType = simulationType \<rparr>)
                  | None \<Rightarrow> (stopSimulation (Some ''Target worker not found'') s, None))))"

text \<open>
  The second part runs when the promise settles: the rest of the \<^verbatim>\<open>try\<close> block when it
  resolved, the \<^verbatim>\<open>catch\<close> block when it rejected.  It reads the refs as they are when
  it runs, not as they were when the call was made.  The console output and the calls of
  \<^verbatim>\<open>categorizeError\<close> and \<^verbatim>\<open>logError\<close> change no state and are left out; the
  callbacks \<^verbatim>\<open>onWorkerUpdate\<close> and \<^verbatim>\<open>onError\<close> are taken not to throw.
\<close>

definition performSimulationStep_resume :: "InFlight \<Rightarrow> OracleResult \<Rightarrow> SimState \<Rightarrow> SimState" where
  "performSimulationStep_resume call result s =
     (let targetWorker = call_targetWorker call;
          simulationType = call_simulationType call;
          nextValues = calculateNextSimulationValues targetWorker simulationType;
          updatedWorker = spread targetWorker nextValues
      in case result of
           Resolved prediction \<Rightarrow>
             (let workerUpdates' = nextValues\<lparr>
                    upd_riskScore := Some (Some (risk_score prediction)),
                    upd_predictedClass := Some (Some (predicted_class prediction)),
                    upd_confidence := Some (Some (pred_confidence prediction)) \<rparr>;
                  s1 = s\<lparr> workerUpdates :=
                           workerUpdates s @ [(worker_id targetWorker, workerUpdates')] \<rparr>;
                  s2 = s1\<lparr> currentWorkerValuesRef := Some (spread targetWorker workerUpdates') \<rparr>;
                  s3 = s2\<lparr> ui_currentValues := Some (updatedWorker\<lparr>
                           riskScore := Some (risk_score prediction),
                           predictedClass := Some (predicted_class prediction),
                           confidence := Some (pred_confidence prediction) \<rparr>) \<rparr>;
                  s4 = s3\<lparr> stepCountRef := stepCountRef s3 + 1 \<rparr>;
                  s5 = s4\<lparr> consecutiveErrorsRef := 0 \<rparr>
              in if \<not> shouldContinueSimulation s5 updatedWorker simulationType
                 then stopSimulation (Some ''Simulation completed successfully'') s5
                 else s5)
         | Rejected message \<Rightarrow>
             (let s1 = s\<lparr> errorCountRef := errorCountRef s + 1 \<rparr>;
                  s2 = s1\<lparr> consecutiveErrorsRef := consecutiveErrorsRef s1 + 1 \<rparr>;
                  s3 = s2\<lparr> workerUpdates :=
                           workerUpdates s2 @ [(worker_id targetWorker, nextValues)] \<rparr>;
                  s4 = s3\<lparr> currentWorkerValuesRef := Some (spread targetWorker nextValues) \<rparr>;
                  s5 = s4\<lparr> ui_currentValues := Some updatedWorker \<rparr>;
                  s6 = (if onErrorGiven s5
                        then s5\<lparr> errorReports := errorReports s5 @
                               [\<lparr> err_message = message,
                                  err_step = stepCountRef s5,
                                  err_simulationType = simulationType,
                                  err_errorCount = errorCountRef s5,
                                  err_consecutiveErrors = consecutiveErrorsRef s5 \<rparr>] \<rparr>
                        else s5)
              in if consecutiveErrorsRef s6 \<ge> 3
                 then stopSimulation (Some ''Too many consecutive errors'') s6
                 else if errorCountRef s6 \<ge> 10
                 then stopSimulation (Some ''Too many total errors'') s6
                 else
                   (let s7 = s6\<lparr> stepCountRef := stepCountRef s6 + 1 \<rparr>
                    in if stepCountRef s7 \<ge> MAX_SIMULATION_STEPS
                       then stopSimulation (Some ''Maximum steps reached'') s7
                       else s7)))"

text \<open>A tick whose oracle call settles before anything else happens.\<close>

definition performSimulationStep :: "OracleResult \<Rightarrow> SimState \<Rightarrow> SimState" where
  "performSimulationStep result s =
     (case performSimulationStep_begin s of
        (s1, None) \<Rightarrow> s1
      | (s1, Some call) \<Rightarrow> performSimulationStep_resume call result s1)"

definition startHeatUpSimulation :: "SimState \<Rightarrow> SimState" where
  "startHeatUpSimulation s =
     (case findTargetWorker s of
        None \<Rightarrow> s
      | Some targetWorker \<Rightarrow>
          (let s1 = stopSimulation (Some ''Starting new simulation'') s;
               s2 = s1\<lparr> baselineValuesRef := noKeys\<lparr>
                          upd_temperature := Some (temperature targetWorker),
                          upd_humidity := Some (humidity targetWorker) \<rparr> \<rparr>;
               s3 = s2\<lparr> stepCountRef := 0, errorCountRef := 0, consecutiveErrorsRef := 0,
                        simulationTypeRef := Some Heatup, isActiveRef := True,
                        currentWorkerValuesRef := Some targetWorker \<rparr>;
               s4 = s3\<lparr> ui_isActive := True, ui_type := Some Heatup,
                        ui_targetWorker := ''John Doe'',
                        ui_currentValues := Some targetWorker \<rparr>
           in s4\<lparr> intervalRef := Some (Timeout (simulationInterval s4)) \<rparr>))"

definition startCoolDownSimulation :: "SimState \<Rightarrow> SimState" where
  "startCoolDownSimulation s =
     (case findTargetWorker s of
        None \<Rightarrow> s
      | Some targetWorker \<Rightarrow>
          (let s1 = stopSimulation (Some ''Starting new simulation'') s;
               s2 = s1\<lparr> baselineValuesRef := noKeys\<lparr>
                          upd_temperature := Some (temperature targetWorker),
                          upd_humidity := Some (humidity targetWorker) \<rparr> \<rparr>;
               s3 = s2\<lparr> stepCountRef := 0, errorCountRef := 0, consecutiveErrorsRef := 0,
                        simulationTypeRef := Some Cooldown, isActiveRef := True,
                        currentWorkerValuesRef := Some targetWorker \<rparr>;
               s4 = s3\<lparr> ui_isActive := True, ui_type := Some Cooldown,
                        ui_targetWorker := ''John Doe'',
                        ui_currentValues := Some targetWorker \<rparr>
           in s4\<lparr> intervalRef := Some (Timeout (simulationInterval s4)) \<rparr>))"

text \<open>
  \<^verbatim>\<open>resetToBaseline\<close>.  The subject generator \<^verbatim>\<open>generateWorkerWithRiskProfile\<close>
  belongs to another module; it is a parameter here, called with the name, the id and
  the risk tier that the source passes.
\<close>

definition resetToBaseline ::
    "(string \<Rightarrow> string \<Rightarrow> string \<Rightarrow> Worker) \<Rightarrow> SimState \<Rightarrow> SimState" where
  "resetToBaseline generateWorkerWithRiskProfile s =
     (case findTargetWorker s of
        None \<Rightarrow> s
      | Some targetWorker \<Rightarrow>
          (let s1 = stopSimulation (Some ''Resetting to baseline'') s;
               freshWorker = generateWorkerWithRiskProfile
                               ''John Doe'' (worker_id targetWorker) ''moderate''
           in s1\<lparr> workerUpdates := workerUpdates s1 @
                    [(worker_id targetWorker,
                      noKeys\<lparr> upd_temperature := Some (temperature freshWorker),
                              upd_humidity := Some (humidity freshWorker),
                              upd_riskScore := Some None,
                              upd_predictedClass := Some None,
                              upd_confidence := Some None \<rparr>)] \<rparr>))"

subsection \<open>Timer and oracle events\<close>

text \<open>
  The interval timer calls \<^verbatim>\<open>performSimulationStep\<close> while it is armed, whether or not
  an earlier call is still awaiting the oracle.  A loop is the hook state with the oracle
  calls in flight, oldest first.  A timer event runs the first part of a step; an oracle
  event settles the call at a position and runs the second part of its step.
\<close>

type_synonym Loop = "SimState \<times> InFlight list"

datatype Event = TimerFires | OracleSettles nat OracleResult

definition timerFires :: "Loop \<Rightarrow> Loop" where
  "timerFires l =
     (case l of (s, calls) \<Rightarrow>
        if intervalRef s = None then (s, calls)
        else (case performSimulationStep_begin s of
                (s1, None) \<Rightarrow> (s1, calls)
              | (s1, Some call) \<Rightarrow> (s1, calls @ [call])))"

definition oracleSettles :: "nat \<Rightarrow> OracleResult \<Rightarrow> Loop \<Rightarrow> Loop" where
  "oracleSettles i result l =
     (case l of (s, calls) \<Rightarrow>
        if i < length calls
        then (performSimulationStep_resume (calls ! i) result s, take i calls @ drop (Suc i) calls)
        else (s, calls))"

fun event :: "Event \<Rightarrow> Loop \<Rightarrow> Loop" where
  "event TimerFires l = timerFires l"
| "event (OracleSettles i result) l = oracleSettles i result l"

fun events :: "Event list \<Rightarrow> Loop \<Rightarrow> Loop" where
  "events [] l = l"
| "events (e # es) l = events es (event e l)"

text \<open>A run of ticks one after the other, each oracle call settling before the next tick.\<close>

fun ticks :: "OracleResult list \<Rightarrow> SimState \<Rightarrow> SimState" where
  "ticks [] s = s"
| "ticks (result # results) s =
     (if intervalRef s = None then s else ticks results (performSimulationStep result s))"

section \<open>The model loaders\<close>

text \<open>
  The two loaders behind the risk oracle.  Their \<^verbatim>\<open>predict\<close> is an \<^verbatim>\<open>async\<close> function
  whose whole body is a \<^verbatim>\<open>try\<close> block; the \<^verbatim>\<open>catch\<close> block returns a result.  A
  thrown value is modelled as \<open>Thrown\<close>, the body of the \<^verbatim>\<open>try\<close> as a function into a
  sum whose left summand is \<open>Thrown\<close>, and \<^verbatim>\<open>predict\<close> as the body followed by the
  handler.  A prediction input maps feature names to numbers; a missing or undefined
  feature is \<open>None\<close>.  \<open>PredictionResult\<close> is the declared result type, which the
  JavaScript loader builds itself; the Python bridge returns what its child printed, at
  type \<^verbatim>\<open>any\<close>.
\<close>

type_synonym PredictionInput = "string \<Rightarrow> real option"

record PredictionResult =
  result_risk_score :: real
  result_predicted_class :: string
  result_confidence :: real
  result_error :: "string option"

datatype Thrown = Error string | NotAnError

text \<open>The \<^verbatim>\<open>catch\<close> block of both loaders.\<close>

definition errorResult :: "Thrown \<Rightarrow> PredictionResult" where
  "errorResult error =
     \<lparr> result_risk_score = 0,
       result_predicted_class = ''error'',
       result_confidence = 0,
       result_error = Some (case error of Error message \<Rightarrow> message
                                        | NotAnError \<Rightarrow> ''Unknown error'') \<rparr>"

text \<open>The truth value of an optional string: undefined and the empty string are false.\<close>

definition truthy :: "string option \<Rightarrow> bool" where
  "truthy v = (case v of None \<Rightarrow> False | Some text \<Rightarrow> text \<noteq> [])"

subsection \<open>The Python bridge (modelLoader.ts)\<close>

text \<open>
  The promise of \<^verbatim>\<open>callPythonScript\<close> has type \<^verbatim>\<open>Promise<any>\<close>: it resolves with whatever
  \<^verbatim>\<open>JSON.parse\<close> returns, and \<^verbatim>\<open>predict\<close> returns that value unchecked.  So the reply is
  a JSON value.  An object lists its properties, each name once.
\<close>

datatype JSON =
    JNull
  | JBool bool
  | JNumber real
  | JString string
  | JArray "JSON list"
  | JObject "(string \<times> JSON) list"

text \<open>
  The property of a parsed value under a name that only an object can carry (not
  \<^verbatim>\<open>length\<close>, an index or an inherited method): \<open>None\<close> is \<^verbatim>\<open>undefined\<close>.
\<close>

definition ownProperty :: "JSON \<Rightarrow> string \<Rightarrow> JSON option" where
  "ownProperty v k = (case v of JObject members \<Rightarrow> map_of members k | _ \<Rightarrow> None)"

text \<open>The expression \<^verbatim>\<open>result.error\<close>: reading a property of \<^verbatim>\<open>null\<close> throws a TypeError.\<close>

definition readError :: "JSON \<Rightarrow> Thrown + JSON option" where
  "readError result =
     (case result of
        JNull \<Rightarrow>
          Inl (Error (''Cannot read properties of null (reading '' @ [CHR 0x27] @ ''error''
                        @ [CHR 0x27] @ '')''))
      | _ \<Rightarrow> Inr (ownProperty result ''error''))"

text \<open>The truth value that \<^verbatim>\<open>if\<close> gives a value that may be undefined.\<close>

definition truthyValue :: "JSON option \<Rightarrow> bool" where
  "truthyValue v =
     (case v of
        None \<Rightarrow> False
      | Some JNull \<Rightarrow> False
      | Some (JBool b) \<Rightarrow> b
      | Some (JNumber x) \<Rightarrow> x \<noteq> 0
      | Some (JString text) \<Rightarrow> text \<noteq> []
      | Some (JArray elements) \<Rightarrow> True
      | Some (JObject members) \<Rightarrow> True)"

text \<open>
  \<^verbatim>\<open>new Error(v)\<close>: the message is \<open>v\<close> converted to a string.  A string is its own
  conversion; \<open>toString\<close> stands for the conversion of the other values.
\<close>

definition newError :: "(JSON \<Rightarrow> string) \<Rightarrow> JSON \<Rightarrow> Thrown" where
  "newError toString v = Error (case v of JString text \<Rightarrow> text | _ \<Rightarrow> toString v)"

text \<open>The \<^verbatim>\<open>catch\<close> block of \<^verbatim>\<open>predict\<close>: the object literal it returns.\<close>

definition errorObject :: "Thrown \<Rightarrow> JSON" where
  "errorObject error =
     JObject [(''risk_score'', JNumber 0),
              (''predicted_class'', JString ''error''),
              (''confidence'', JNumber 0),
              (''error'', JString (case error of Error message \<Rightarrow> message
                                              | NotAnError \<Rightarrow> ''Unknown error''))]"

text \<open>The exit code of the child, as a template literal prints it.\<close>

fun digits :: "nat \<Rightarrow> string" where
  "digits n =
     (if n < 10 then [char_of (48 + n)] else digits (n div 10) @ [char_of (48 + n mod 10)])"

declare digits.simps [simp del]

definition showCode :: "int option \<Rightarrow> string" where
  "showCode code =
     (case code of None \<Rightarrow> ''null''
      | Some c \<Rightarrow> if c < 0 then ''-'' @ digits (nat (- c)) else digits (nat c))"

text \<open>
  After spawning the child, \<^verbatim>\<open>callPythonScript\<close> writes \<^verbatim>\<open>JSON.stringify(inputData)\<close> to the
  child's standard input and ends that stream (\<^verbatim>\<open>predict\<close> always passes an input and no
  health-check flag, so the first branch is the one taken).  The stream is given no
  listener for its \<^verbatim>\<open>error\<close> event.  \<open>Written\<close> is a write that raises no error;
  \<open>WriteError\<close> is a write after which the stream emits \<^verbatim>\<open>error\<close>, for instance because
  the child has closed its end of the pipe.
\<close>

datatype StdinWrite = Written | WriteError string

text \<open>
  What settles the promise of \<^verbatim>\<open>callPythonScript\<close> first: the child's \<^verbatim>\<open>error\<close> event
  with its message, its \<^verbatim>\<open>close\<close> event with the exit code (\<open>None\<close> is \<^verbatim>\<open>null\<close>), the
  collected standard output and standard error, or the 30 second timer.  The parameter
  \<open>JSON_parse\<close> stands for \<^verbatim>\<open>JSON.parse(outputData.trim())\<close>; it is \<open>None\<close> when parsing
  throws.
\<close>

datatype ProcessOutcome =
    ProcessError string
  | ProcessClose "int option" string string
  | ProcessTimeout

text \<open>
  The result of \<^verbatim>\<open>callPythonScript(inputData, false)\<close> is \<open>Some (Inr result)\<close> when the
  promise resolves and \<open>Some (Inl error)\<close> when it rejects.  An \<^verbatim>\<open>error\<close> event of the
  standard input has no listener, so the emitter throws it outside the promise and
  outside every \<^verbatim>\<open>try\<close> block of the loader: neither \<^verbatim>\<open>resolve\<close> nor \<^verbatim>\<open>reject\<close> handles
  it, and the caller is given no value, which is \<open>None\<close>.
\<close>

definition callPythonScript ::
    "(string \<Rightarrow> JSON option) \<Rightarrow> StdinWrite \<Rightarrow> ProcessOutcome \<Rightarrow> (Thrown + JSON) option" where
  "callPythonScript JSON_parse stdin outcome =
     (case stdin of
        WriteError message \<Rightarrow> None
      | Written \<Rightarrow>
          Some (case outcome of
                  ProcessClose code outputData errorData \<Rightarrow>
                    if code \<noteq> Some 0
                    then Inl (Error (''Python script exited with code '' @ showCode code
                                       @ '': '' @ errorData))
                    else (case JSON_parse outputData of
                            Some result \<Rightarrow> Inr result
                          | None \<Rightarrow>
                              Inl (Error (''Failed to parse Python output: '' @ outputData)))
                | ProcessError message \<Rightarrow>
                    Inl (Error (''Failed to start Python process: '' @ message))
                | ProcessTimeout \<Rightarrow> Inl (Error ''Python script timed out'')))"

text \<open>
  The body of the \<^verbatim>\<open>try\<close> block of \<^verbatim>\<open>predict\<close>.  The two required fields are checked
  before the child is spawned.
\<close>

definition ModelLoader_predict_try ::
    "(string \<Rightarrow> JSON option) \<Rightarrow> (JSON \<Rightarrow> string) \<Rightarrow> StdinWrite \<Rightarrow> ProcessOutcome
       \<Rightarrow> PredictionInput \<Rightarrow> (Thrown + JSON) option" where
  "ModelLoader_predict_try JSON_parse toString stdin outcome inputData =
     (if inputData ''Temperature'' = None \<or> inputData ''Humidity'' = None
      then Some (Inl (Error ''Temperature and Humidity are required fields''))
      else case callPythonScript JSON_parse stdin outcome of
             None \<Rightarrow> None
           | Some (Inl error) \<Rightarrow> Some (Inl error)
           | Some (Inr result) \<Rightarrow>
               (case readError result of
                  Inl error \<Rightarrow> Some (Inl error)
                | Inr None \<Rightarrow> Some (Inr result)
                | Inr (Some v) \<Rightarrow>
                    if truthyValue (Some v) then Some (Inl (newError toString v))
                    else Some (Inr result)))"

definition ModelLoader_predict ::
    "(string \<Rightarrow> JSON option) \<Rightarrow> (JSON \<Rightarrow> string) \<Rightarrow> StdinWrite \<Rightarrow> ProcessOutcome
       \<Rightarrow> PredictionInput \<Rightarrow> JSON option" where
  "ModelLoader_predict JSON_parse toString stdin outcome inputData =
     (case ModelLoader_predict_try JSON_parse toString stdin outcome inputData of
        None \<Rightarrow> None
      | Some (Inr result) \<Rightarrow> Some result
      | Some (Inl error) \<Rightarrow> Some (errorObject error))"

subsection \<open>The JavaScript loader (jsModelLoader.ts)\<close>

text \<open>
  The loader reads four files and, when all four can be read, holds the components that
  \<^verbatim>\<open>parseJoblibFile\<close> hard-codes for them.  The parameter \<open>readable\<close> tells which
  files \<^verbatim>\<open>fs.readFileSync\<close> can read.  \<open>loadModel\<close> returns the components it stores,
  \<open>None\<close> where the source returns \<^verbatim>\<open>false\<close>.
\<close>

record ModelComponents =
  featureColumns :: "string list"
  classes :: "string list"
  scaler_mean :: "real list"
  scaler_scale :: "real list"

definition loadModel :: "(string \<Rightarrow> bool) \<Rightarrow> ModelComponents option" where
  "loadModel readable =
     (if readable ''feature_columns.joblib'' \<and> readable ''label_encoder.joblib'' \<and>
         readable ''scaler.joblib'' \<and> readable ''xgboost_model.joblib''
      then Some \<lparr> featureColumns =
                    [''Temperature'', ''Humidity'', ''hrv_mean_hr'', ''hrv_rmssd'',
                     ''Gender'', ''Age''],
                  classes = [''neutral'', ''slightly warm'', ''warm'', ''hot''],
                  scaler_mean = [25.0, 50.0, 70.0, 30.0, 0.5, 30.0],
                  scaler_scale = [5.0, 20.0, 10.0, 10.0, 0.5, 10.0] \<rparr>
      else None)"

text \<open>\<^verbatim>\<open>xs[idx] || d\<close>: the default replaces a missing entry and a zero.\<close>

definition orElse :: "real list \<Rightarrow> nat \<Rightarrow> real \<Rightarrow> real" where
  "orElse xs idx d = (if idx < length xs \<and> xs ! idx \<noteq> 0 then xs ! idx else d)"

definition scaler_transform :: "ModelComponents \<Rightarrow> real list \<Rightarrow> real list" where
  "scaler_transform components row =
     map (\<lambda>(val, idx). (val - orElse (scaler_mean components) idx 0)
                        / orElse (scaler_scale components) idx 1)
         (zip row [0 ..< length row])"

definition model_predict :: "real list \<Rightarrow> nat" where
  "model_predict scaledFeatures =
     (let temp = (scaledFeatures ! 0 * 5.0) + 25.0
      in if temp > 28 then 3 else if temp > 26 then 2 else if temp > 24 then 1 else 0)"

definition model_predict_proba :: "real list \<Rightarrow> real list" where
  "model_predict_proba scaledFeatures =
     (let temp = (scaledFeatures ! 0 * 5.0) + 25.0
      in if temp > 28 then [0.05, 0.15, 0.20, 0.60]
         else if temp > 26 then [0.10, 0.20, 0.60, 0.10]
         else if temp > 24 then [0.20, 0.60, 0.15, 0.05]
         else [0.60, 0.25, 0.10, 0.05])"

definition classToScore :: "string \<Rightarrow> real option" where
  "classToScore =
     [''neutral'' \<mapsto> 0.0, ''slightly warm'' \<mapsto> 0.33, ''warm'' \<mapsto> 0.67, ''hot'' \<mapsto> 1.0]"

text \<open>
  \<^verbatim>\<open>calculateRiskScore\<close> of the JavaScript loader.  \<^verbatim>\<open>classToScore[className] || 0.5\<close>
  gives 0.5 for an unknown class and for the score 0.
\<close>

definition calculateRiskScore :: "ModelComponents \<Rightarrow> real list \<Rightarrow> real" where
  "calculateRiskScore components probabilities =
     (let classNames = classes components;
          score = (\<lambda>i. if i < length classNames
                        then (case classToScore (classNames ! i) of
                                Some v \<Rightarrow> if v \<noteq> 0 then v else 0.5
                              | None \<Rightarrow> 0.5)
                        else 0.5);
          weightedScore = fold (\<lambda>i acc. acc + probabilities ! i * score i)
                            [0 ..< length probabilities] 0.0
      in min 1.0 (weightedScore + 0.15))"

text \<open>The result of \<^verbatim>\<open>predict\<close> and the components the loader holds afterwards.\<close>

definition JSModelLoader_predict ::
    "(string \<Rightarrow> bool) \<Rightarrow> ModelComponents option \<Rightarrow> PredictionInput
       \<Rightarrow> PredictionResult \<times> ModelComponents option" where
  "JSModelLoader_predict readable components inputData =
     (let components' = (case components of Some c \<Rightarrow> Some c | None \<Rightarrow> loadModel readable)
      in case components' of
           None \<Rightarrow> (errorResult (Error ''Failed to load model components''), None)
         | Some c \<Rightarrow>
             if inputData ''Temperature'' = None \<or> inputData ''Humidity'' = None
             then (errorResult (Error ''Temperature and Humidity are required fields''), Some c)
             else
               (let features = map (\<lambda>feature. case inputData feature of
                                                  Some v \<Rightarrow> v | None \<Rightarrow> 0.0)
                                   (featureColumns c);
                    scaledFeatures = scaler_transform c features;
                    prediction = model_predict scaledFeatures;
                    probs = model_predict_proba scaledFeatures;
                    riskScore' = calculateRiskScore c probs;
                    predictedClass' = classes c ! prediction;
                    confidence' = fold max probs (probs ! 0)
                in (\<lparr> result_risk_score = Math_round (riskScore' * 10000) / 10000,
                       result_predicted_class = predictedClass',
                       result_confidence = Math_round (confidence' * 1000) / 1000,
                       result_error = None \<rparr>, Some c)))"

section \<open>Predicates of the statements\<close>

text \<open>The loop is idle: everything that the teardown clears is clear.\<close>

definition idle :: "SimState \<Rightarrow> bool" where
  "idle s \<longleftrightarrow>
     intervalRef s = None \<and> simulationTypeRef s = None \<and> \<not> isActiveRef s \<and>
     currentWorkerValuesRef s = None \<and> stepCountRef s = 0 \<and> errorCountRef s = 0 \<and>
     consecutiveErrorsRef s = 0 \<and> \<not> ui_isActive s \<and> ui_type s = None"

text \<open>
  The subject that a tick works on: the cached worker, else the worker found by name.  A
  run is running in a mode on a subject when the loop is active, the mode is set and the
  subject resolves; these are the ticks that reach the oracle.
\<close>

definition workingSubject :: "SimState \<Rightarrow> Worker option" where
  "workingSubject s =
     (case currentWorkerValuesRef s of Some w \<Rightarrow> Some w | None \<Rightarrow> findTargetWorker s)"

definition running :: "SimState \<Rightarrow> simulationType \<Rightarrow> Worker \<Rightarrow> bool" where
  "running s m w \<longleftrightarrow>
     isActiveRef s \<and> simulationTypeRef s = Some m \<and> workingSubject s = Some w"

text \<open>
  A run is live in a mode: the loop is active, its timer is armed, the mode is set and a
  subject is cached, as after a start and after every tick that does not stop the run.
\<close>

definition live :: "SimState \<Rightarrow> simulationType \<Rightarrow> bool" where
  "live s m \<longleftrightarrow>
     isActiveRef s \<and> intervalRef s \<noteq> None \<and> simulationTypeRef s = Some m \<and>
     currentWorkerValuesRef s \<noteq> None"

text \<open>
  The oracle failures among the ticks of a run: how many there are in all, and how many
  stand at the end of the run with no success after them.
\<close>

fun isRejected :: "OracleResult \<Rightarrow> bool" where
  "isRejected (Rejected message) = True"
| "isRejected (Resolved prediction) = False"

definition failures :: "OracleResult list \<Rightarrow> nat" where
  "failures results = length (filter isRejected results)"

definition trailing :: "OracleResult list \<Rightarrow> nat" where
  "trailing results = length (takeWhile isRejected (rev results))"

text \<open>A result has the shape that the loaders' \<^verbatim>\<open>catch\<close> block gives, with a message.\<close>

definition isErrorResult :: "PredictionResult \<Rightarrow> bool" where
  "isErrorResult r \<longleftrightarrow>
     result_risk_score r = 0 \<and> result_predicted_class r = ''error'' \<and>
     result_confidence r = 0 \<and> truthy (result_error r)"

text \<open>
  A value has the shape that the \<^verbatim>\<open>catch\<close> block of the Python bridge gives: risk score 0,
  class "error", confidence 0, and an error text that is not empty.
\<close>

definition isErrorObject :: "JSON \<Rightarrow> bool" where
  "isErrorObject r \<longleftrightarrow>
     ownProperty r ''risk_score'' = Some (JNumber 0) \<and>
     ownProperty r ''predicted_class'' = Some (JString ''error'') \<and>
     ownProperty r ''confidence'' = Some (JNumber 0) \<and>
     (case ownProperty r ''error'' of Some (JString text) \<Rightarrow> text \<noteq> [] | _ \<Rightarrow> False)"

text \<open>
  The failures of the Python bridge: a required field is missing, the child cannot be
  started, it exits with a code other than 0, its output cannot be parsed, it times out,
  or its reply carries an error field that is a string and not empty.
\<close>

definition pythonFailure ::
    "(string \<Rightarrow> JSON option) \<Rightarrow> ProcessOutcome \<Rightarrow> PredictionInput \<Rightarrow> bool" where
  "pythonFailure JSON_parse outcome inputData \<longleftrightarrow>
     inputData ''Temperature'' = None \<or> inputData ''Humidity'' = None \<or>
     (case outcome of
        ProcessError message \<Rightarrow> True
      | ProcessTimeout \<Rightarrow> True
      | ProcessClose code outputData errorData \<Rightarrow>
          code \<noteq> Some 0 \<or>
          (case JSON_parse outputData of
             None \<Rightarrow> True
           | Some result \<Rightarrow>
               (case ownProperty result ''error'' of
                  Some (JString text) \<Rightarrow> text \<noteq> []
                | _ \<Rightarrow> False)))"

text \<open>The failures of the JavaScript loader: no components can be loaded, or a required field is missing.\<close>

definition jsFailure ::
    "(string \<Rightarrow> bool) \<Rightarrow> ModelComponents option \<Rightarrow> PredictionInput \<Rightarrow> bool" where
  "jsFailure readable components inputData \<longleftrightarrow>
     (components = None \<and> loadModel readable = None) \<or>
     inputData ''Temperature'' = None \<or> inputData ''Humidity'' = None"

section \<open>Ranges and sample data\<close>

text \<open>
  The documented clamp ranges of the five quantities of the specification's table, and
  the bounds that the source codes for the other perturbed statistics: mean NNI has a
  cap only, pNN50, total power, LF and HF have a cap in heat-up and a floor in cool-down.
\<close>

definition documentedRanges :: "Worker \<Rightarrow> bool" where
  "documentedRanges w \<longleftrightarrow>
     10 \<le> temperature w \<and> temperature w \<le> 34 \<and>
     20 \<le> humidity w \<and> humidity w \<le> 90 \<and>
     50 \<le> hrv_mean_hr w \<and> hrv_mean_hr w \<le> 110 \<and>
     15 \<le> hrv_rmssd w \<and> hrv_rmssd w \<le> 120 \<and>
     20 \<le> hrv_sdnn w \<and> hrv_sdnn w \<le> 150"

definition codedRanges :: "Worker \<Rightarrow> bool" where
  "codedRanges w \<longleftrightarrow>
     hrv_mean_nni w \<le> 1200 \<and>
     5 \<le> hrv_pnni_50 w \<and> hrv_pnni_50 w \<le> 50 \<and>
     800 \<le> hrv_total_power w \<and> hrv_total_power w \<le> 5000 \<and>
     200 \<le> hrv_lf w \<and> hrv_lf w \<le> 1500 \<and>
     100 \<le> hrv_hf w \<and> hrv_hf w \<le> 1000"

text \<open>A key of a returned object is present and its value lies in a range.\<close>

definition valueIn :: "real \<Rightarrow> real \<Rightarrow> real option \<Rightarrow> bool" where
  "valueIn lo hi v = (case v of None \<Rightarrow> False | Some x \<Rightarrow> lo \<le> x \<and> x \<le> hi)"

definition upTo :: "real \<Rightarrow> real option \<Rightarrow> bool" where
  "upTo hi v = (case v of None \<Rightarrow> False | Some x \<Rightarrow> x \<le> hi)"

text \<open>A key is present and its value lies strictly below, or not below, a number.\<close>

definition below :: "real option \<Rightarrow> real \<Rightarrow> bool" where
  "below v x = (case v of None \<Rightarrow> False | Some y \<Rightarrow> y < x)"

definition notBelow :: "real option \<Rightarrow> real \<Rightarrow> bool" where
  "notBelow v x = (case v of None \<Rightarrow> False | Some y \<Rightarrow> x \<le> y)"

text \<open>A key is present and its value lies within a tolerance of a number.\<close>

definition near :: "real option \<Rightarrow> real \<Rightarrow> real \<Rightarrow> bool" where
  "near v y tol = (case v of None \<Rightarrow> False | Some z \<Rightarrow> \<bar>z - y\<bar> \<le> tol)"

text \<open>
  A statistic relaxes in cool-down at the rate \<open>cool\<close>, and is aroused in heat-up at the
  rate \<open>heat\<close>, both given as the map from the old value to the new one before clamping
  and rounding; \<open>tol\<close> is the rounding error.  In cool-down its new value is never below
  the floor, it is the floor when the rate leads to the floor or below, and otherwise it is
  what the rate gives, rounded.  In heat-up, below the cap, it is what the heat-up rate
  gives, rounded.  From a value above the floor cool-down moves it strictly down, and from
  the same value, if that is not above the cap, heat-up does not move it down.  The two
  rates differ: from a positive value the cool-down rate leads below it and the heat-up
  rate above it.
\<close>

definition relaxes ::
    "(Worker \<Rightarrow> real) \<Rightarrow> (PartialWorker \<Rightarrow> real option) \<Rightarrow> real \<Rightarrow> real \<Rightarrow>
     (real \<Rightarrow> real) \<Rightarrow> (real \<Rightarrow> real) \<Rightarrow> real \<Rightarrow> Worker \<Rightarrow> bool" where
  "relaxes field upd floor' cap cool heat tol w \<longleftrightarrow>
     notBelow (upd (calculateNextSimulationValues w Cooldown)) floor' \<and>
     (cool (field w) \<le> floor' \<longrightarrow>
        upd (calculateNextSimulationValues w Cooldown) = Some floor') \<and>
     (floor' \<le> cool (field w) \<longrightarrow>
        near (upd (calculateNextSimulationValues w Cooldown)) (cool (field w)) tol) \<and>
     (heat (field w) \<le> cap \<longrightarrow>
        near (upd (calculateNextSimulationValues w Heatup)) (heat (field w)) tol) \<and>
     (floor' < field w \<longrightarrow>
        below (upd (calculateNextSimulationValues w Cooldown)) (field w)) \<and>
     (floor' < field w \<and> field w \<le> cap \<longrightarrow>
        notBelow (upd (calculateNextSimulationValues w Heatup)) (field w)) \<and>
     (0 < field w \<longrightarrow> cool (field w) < field w \<and> field w < heat (field w))"

text \<open>
  The subject of the specification's end-to-end scenario: temperature 22.0, humidity 45.0,
  mean heart rate 70.0, no risk annotation yet.
\<close>

definition johnDoe :: Worker where
  "johnDoe = \<lparr> worker_id = ''worker-1'', name = ''John Doe'',
     temperature = 22, humidity = 45, hrv_mean_hr = 70, hrv_rmssd = 40, hrv_sdnn = 50,
     hrv_mean_nni = 800, hrv_pnni_50 = 20, hrv_total_power = 2000, hrv_lf = 600,
     hrv_hf = 400, hrv_min_hr = 55, hrv_max_hr = 95, hrv_std_hr = 15,
     hrv_lf_hf_ratio = Some 1.5, hrv_median_nni = 784, hrv_range_nni = 400,
     hrv_cvnni = Some 0.063,
     riskScore = None, predictedClass = None, confidence = None \<rparr>"

definition idleHook :: SimState where
  "idleHook = initialState [johnDoe] DEFAULT_SIMULATION_INTERVAL False"

text \<open>A heat-up run just started on the sample subject.\<close>

definition heatUpRun :: SimState where
  "heatUpRun = startHeatUpSimulation idleHook"

text \<open>The subject saturated at both maxima, and a heat-up run started on it.\<close>

definition saturatedDoe :: Worker where
  "saturatedDoe = johnDoe\<lparr>temperature := 34, humidity := 90\<rparr>"

definition saturatedRun :: SimState where
  "saturatedRun =
     startHeatUpSimulation (initialState [saturatedDoe] DEFAULT_SIMULATION_INTERVAL False)"

text \<open>The subject two steps from saturation, and a heat-up run started on it.\<close>

definition warmDoe :: Worker where
  "warmDoe = johnDoe\<lparr>temperature := 32, humidity := 85\<rparr>"

definition warmRun :: SimState where
  "warmRun = startHeatUpSimulation (initialState [warmDoe] DEFAULT_SIMULATION_INTERVAL False)"

text \<open>An oracle reply, an oracle failure, and thirteen ticks with nine failures, never three in a row.\<close>

definition samplePrediction :: PredictionResponse where
  "samplePrediction = \<lparr> risk_score = 0.5, predicted_class = ''warm'', pred_confidence = 0.6 \<rparr>"

definition ok :: OracleResult where
  "ok = Resolved samplePrediction"

definition failed :: OracleResult where
  "failed = Rejected ''Request timed out''"

definition nineFailures :: "OracleResult list" where
  "nineFailures =
     [failed, failed, ok, failed, failed, ok, failed, failed, ok, failed, failed, ok, failed]"

text \<open>A subject generator, a prediction input, and a reply whose error text is empty.\<close>

definition sampleGenerator :: "string \<Rightarrow> string \<Rightarrow> string \<Rightarrow> Worker" where
  "sampleGenerator name' id' tier =
     johnDoe\<lparr> worker_id := id', name := name', temperature := 24, humidity := 50 \<rparr>"

definition sampleInput :: PredictionInput where
  "sampleInput = [''Temperature'' \<mapsto> 30, ''Humidity'' \<mapsto> 60, ''hrv_mean_hr'' \<mapsto> 80]"

definition emptyErrorReply :: JSON where
  "emptyErrorReply =
     JObject [(''risk_score'', JNumber 0.67), (''predicted_class'', JString ''warm''),
              (''confidence'', JNumber 0.6), (''error'', JString [])]"

definition failedReply :: JSON where
  "failedReply = JObject [(''error'', JString ''Model not loaded'')]"

definition sampleParse :: "string \<Rightarrow> JSON option" where
  "sampleParse outputData =
     (if outputData = ''reply'' then Some emptyErrorReply
      else if outputData = ''failed'' then Some failedReply
      else if outputData = ''null'' then Some JNull
      else None)"

definition sampleToString :: "JSON \<Rightarrow> string" where
  "sampleToString v = ''[object Object]''"

section \<open>Rounding\<close>

named_theorems sim_consts \<open>the values of the configuration constants\<close>

lemmas sim_consts_defs [sim_consts] =
  TEMPERATURE_INCREMENT_def HUMIDITY_INCREMENT_def
  MAX_TEMPERATURE_def MIN_TEMPERATURE_def MAX_HUMIDITY_def MIN_HUMIDITY_def
  HRV_INCREASE_RMSSD_def HRV_INCREASE_SDNN_def HRV_INCREASE_PNN50_def
  HRV_INCREASE_POWER_def HRV_INCREASE_LF_def HRV_INCREASE_HF_def
  HRV_DECREASE_RMSSD_def HRV_DECREASE_SDNN_def HRV_DECREASE_PNN50_def
  HRV_DECREASE_POWER_def HRV_DECREASE_LF_def HRV_DECREASE_HF_def
  HEART_RATE_STRESS_INCREMENT_def HEART_RATE_RECOVERY_DECREMENT_def
  MAX_SIMULATION_STEPS_def

lemma Math_round_lower: "x - 1 / 2 < Math_round x"
  unfolding Math_round_def by linarith

lemma Math_round_upper: "Math_round x \<le> x + 1 / 2"
  unfolding Math_round_def by linarith

lemma Math_round_ge_int: "of_int a \<le> x \<Longrightarrow> of_int a \<le> Math_round x"
  unfolding Math_round_def by (simp add: le_floor_iff)

lemma Math_round_le_int: "x \<le> of_int b \<Longrightarrow> Math_round x \<le> of_int b"
  unfolding Math_round_def by (simp add: floor_le_iff)

text \<open>Rounding to an integer, or to one decimal, does not leave a range whose ends it fixes.\<close>

lemma round0_within:
  assumes "of_int a \<le> x" "x \<le> of_int b"
  shows "of_int a \<le> Math_round x \<and> Math_round x \<le> of_int b"
  using assms by (simp add: Math_round_ge_int Math_round_le_int)

lemma round1_within:
  assumes "of_int a / 10 \<le> x" "x \<le> of_int b / 10"
  shows "of_int a / 10 \<le> Math_round (x * 10) / 10 \<and>
         Math_round (x * 10) / 10 \<le> of_int b / 10"
proof -
  have "of_int a \<le> x * 10" "x * 10 \<le> of_int b"
    using assms by simp_all
  then have "of_int a \<le> Math_round (x * 10) \<and> Math_round (x * 10) \<le> of_int b"
    by (rule round0_within)
  then show ?thesis by simp
qed

lemma valueIn_round1:
  assumes "lo = of_int a / 10" "hi = of_int b / 10" "lo \<le> x" "x \<le> hi"
  shows "valueIn lo hi (Some (Math_round (x * 10) / 10))"
  using round1_within [of a x b] assms by (simp add: valueIn_def)

lemma valueIn_round0:
  assumes "lo = of_int a" "hi = of_int b" "lo \<le> x" "x \<le> hi"
  shows "valueIn lo hi (Some (Math_round x))"
  using round0_within [of a x b] assms by (simp add: valueIn_def)

lemma upTo_round0:
  assumes "hi = of_int b" "x \<le> hi"
  shows "upTo hi (Some (Math_round x))"
  using Math_round_le_int [of x b] assms by (simp add: upTo_def)

lemma Math_round_of_int: "Math_round (of_int a) = of_int a"
proof -
  have "\<lfloor>real_of_int a + 1 / 2\<rfloor> = a"
    by (rule floor_unique) simp_all
  then show ?thesis by (simp add: Math_round_def)
qed

text \<open>A floored value, rounded, is strictly below \<open>x\<close> when its argument clears the rounding error.\<close>

lemma relax_round1:
  assumes "f = of_int a / 10" "f < x" "z + 1 / 20 < x"
  shows "below (Some (Math_round (max f z * 10) / 10)) x"
proof (cases "z \<le> f")
  case True
  then have "max f z * 10 = of_int a"
    using assms(1) by (simp add: max_def)
  then show ?thesis
    using assms(1,2) by (simp add: below_def Math_round_of_int)
next
  case False
  then have "max f z = z" by (simp add: max_def)
  then show ?thesis
    using Math_round_upper [of "z * 10"] assms(3) by (simp add: below_def)
qed

lemma relax_round0:
  assumes "f = of_int a" "f < x" "z + 1 / 2 < x"
  shows "below (Some (Math_round (max f z))) x"
proof (cases "z \<le> f")
  case True
  then have "max f z = of_int a"
    using assms(1) by (simp add: max_def)
  then show ?thesis
    using assms(1,2) by (simp add: below_def Math_round_of_int)
next
  case False
  then have "max f z = z" by (simp add: max_def)
  then show ?thesis
    using Math_round_upper [of z] assms(3) by (simp add: below_def)
qed

lemma arouse_round1:
  assumes "c = of_int b / 10" "x \<le> c" "x + 1 / 20 \<le> z"
  shows "notBelow (Some (Math_round (min c z * 10) / 10)) x"
proof (cases "c \<le> z")
  case True
  then have "min c z * 10 = of_int b"
    using assms(1) by (simp add: min_def)
  then show ?thesis
    using assms(1,2) by (simp add: notBelow_def Math_round_of_int)
next
  case False
  then have "min c z = z" by (simp add: min_def)
  then show ?thesis
    using Math_round_lower [of "z * 10"] assms(3) by (simp add: notBelow_def)
qed

lemma arouse_round0:
  assumes "c = of_int b" "x \<le> c" "x + 1 / 2 \<le> z"
  shows "notBelow (Some (Math_round (min c z))) x"
proof (cases "c \<le> z")
  case True
  then have "min c z = of_int b"
    using assms(1) by (simp add: min_def)
  then show ?thesis
    using assms(1,2) by (simp add: notBelow_def Math_round_of_int)
next
  case False
  then have "min c z = z" by (simp add: min_def)
  then show ?thesis
    using Math_round_lower [of z] assms(3) by (simp add: notBelow_def)
qed

lemma floor_round1:
  assumes "f = of_int a / 10"
  shows "notBelow (Some (Math_round (max f z * 10) / 10)) f"
proof -
  have "of_int a \<le> max f z * 10"
    using assms by (simp add: max_def)
  then have "of_int a \<le> Math_round (max f z * 10)"
    by (rule Math_round_ge_int)
  then show ?thesis
    unfolding assms by (simp add: notBelow_def)
qed

lemma floor_round0:
  assumes "f = of_int a"
  shows "notBelow (Some (Math_round (max f z))) f"
proof -
  have "of_int a \<le> max f z"
    using assms by (simp add: max_def)
  then show ?thesis
    using Math_round_ge_int [of a "max f z"] assms by (simp add: notBelow_def)
qed

lemma upTo_round1:
  assumes "hi = of_int b / 10" "x \<le> hi"
  shows "upTo hi (Some (Math_round (x * 10) / 10))"
proof -
  have "x * 10 \<le> of_int b"
    using assms by simp
  then have "Math_round (x * 10) \<le> of_int b"
    by (rule Math_round_le_int)
  then show ?thesis
    unfolding assms(1) by (simp add: upTo_def)
qed

text \<open>A clamp that does not bite leaves the value, up to the rounding error; one that bites gives the bound.\<close>

lemma near_floor_round1:
  assumes "f \<le> z"
  shows "near (Some (Math_round (max f z * 10) / 10)) z (1 / 20)"
proof -
  have "max f z = z" using assms by (simp add: max_def)
  then show ?thesis
    using Math_round_lower [of "z * 10"] Math_round_upper [of "z * 10"]
    unfolding near_def by (simp only: option.case)
qed

lemma near_floor_round0:
  assumes "f \<le> z"
  shows "near (Some (Math_round (max f z))) z (1 / 2)"
proof -
  have "max f z = z" using assms by (simp add: max_def)
  then show ?thesis
    using Math_round_lower [of z] Math_round_upper [of z]
    unfolding near_def by (simp only: option.case)
qed

lemma near_cap_round1:
  assumes "z \<le> c"
  shows "near (Some (Math_round (min c z * 10) / 10)) z (1 / 20)"
proof -
  have "min c z = z" using assms by (simp add: min_def)
  then show ?thesis
    using Math_round_lower [of "z * 10"] Math_round_upper [of "z * 10"]
    unfolding near_def by (simp only: option.case)
qed

lemma near_cap_round0:
  assumes "z \<le> c"
  shows "near (Some (Math_round (min c z))) z (1 / 2)"
proof -
  have "min c z = z" using assms by (simp add: min_def)
  then show ?thesis
    using Math_round_lower [of z] Math_round_upper [of z]
    unfolding near_def by (simp only: option.case)
qed

lemma at_floor_round1:
  assumes "c = of_int a" "f * 10 = c" "z \<le> f"
  shows "Math_round (max f z * 10) = c"
proof -
  have "max f z * 10 = of_int a"
    using assms by (simp add: max_def)
  then show ?thesis
    using assms(1) by (simp add: Math_round_of_int)
qed

lemma at_floor_round0:
  assumes "f = of_int a" "z \<le> f"
  shows "Math_round (max f z) = f"
proof -
  have "max f z = of_int a"
    using assms by (simp add: max_def)
  then show ?thesis
    using assms(1) by (simp add: Math_round_of_int)
qed

section \<open>The signal generator keeps every range\<close>

lemma temperature_in_range:
  assumes "10 \<le> temperature w" "temperature w \<le> 34"
  shows "valueIn 10 34 (upd_temperature (calculateNextSimulationValues w m))"
proof (cases m)
  case Heatup
  show ?thesis unfolding Heatup
    by (simp add: calculateNextSimulationValues_def Let_def sim_consts)
       (rule valueIn_round1 [of _ 100 _ 340], use assms in simp_all)
next
  case Cooldown
  show ?thesis unfolding Cooldown
    by (simp add: calculateNextSimulationValues_def Let_def sim_consts)
       (rule valueIn_round1 [of _ 100 _ 340], use assms in simp_all)
qed

lemma humidity_in_range:
  assumes "20 \<le> humidity w" "humidity w \<le> 90"
  shows "valueIn 20 90 (upd_humidity (calculateNextSimulationValues w m))"
proof (cases m)
  case Heatup
  show ?thesis unfolding Heatup
    by (simp add: calculateNextSimulationValues_def Let_def sim_consts)
       (rule valueIn_round1 [of _ 200 _ 900], use assms in simp_all)
next
  case Cooldown
  show ?thesis unfolding Cooldown
    by (simp add: calculateNextSimulationValues_def Let_def sim_consts)
       (rule valueIn_round1 [of _ 200 _ 900], use assms in simp_all)
qed

lemma mean_hr_in_range:
  assumes "50 \<le> hrv_mean_hr w" "hrv_mean_hr w \<le> 110"
  shows "valueIn 50 110 (upd_hrv_mean_hr (calculateNextSimulationValues w m))"
proof (cases m)
  case Heatup
  show ?thesis unfolding Heatup
    by (simp add: calculateNextSimulationValues_def Let_def sim_consts)
       (rule valueIn_round1 [of _ 500 _ 1100], use assms in simp_all)
next
  case Cooldown
  show ?thesis unfolding Cooldown
    by (simp add: calculateNextSimulationValues_def Let_def sim_consts)
       (rule valueIn_round1 [of _ 500 _ 1100], use assms in simp_all)
qed

lemma rmssd_in_range:
  assumes "15 \<le> hrv_rmssd w" "hrv_rmssd w \<le> 120"
  shows "valueIn 15 120 (upd_hrv_rmssd (calculateNextSimulationValues w m))"
proof (cases m)
  case Heatup
  show ?thesis unfolding Heatup
    by (simp add: calculateNextSimulationValues_def Let_def sim_consts)
       (rule valueIn_round1 [of _ 150 _ 1200], use assms in simp_all)
next
  case Cooldown
  show ?thesis unfolding Cooldown
    by (simp add: calculateNextSimulationValues_def Let_def sim_consts)
       (rule valueIn_round1 [of _ 150 _ 1200], use assms in simp_all)
qed

lemma sdnn_in_range:
  assumes "20 \<le> hrv_sdnn w" "hrv_sdnn w \<le> 150"
  shows "valueIn 20 150 (upd_hrv_sdnn (calculateNextSimulationValues w m))"
proof (cases m)
  case Heatup
  show ?thesis unfolding Heatup
    by (simp add: calculateNextSimulationValues_def Let_def sim_consts)
       (rule valueIn_round1 [of _ 200 _ 1500], use assms in simp_all)
next
  case Cooldown
  show ?thesis unfolding Cooldown
    by (simp add: calculateNextSimulationValues_def Let_def sim_consts)
       (rule valueIn_round1 [of _ 200 _ 1500], use assms in simp_all)
qed

lemma pnni_50_in_range:
  assumes "5 \<le> hrv_pnni_50 w" "hrv_pnni_50 w \<le> 50"
  shows "valueIn 5 50 (upd_hrv_pnni_50 (calculateNextSimulationValues w m))"
proof (cases m)
  case Heatup
  show ?thesis unfolding Heatup
    by (simp add: calculateNextSimulationValues_def Let_def sim_consts)
       (rule valueIn_round1 [of _ 50 _ 500], use assms in simp_all)
next
  case Cooldown
  show ?thesis unfolding Cooldown
    by (simp add: calculateNextSimulationValues_def Let_def sim_consts)
       (rule valueIn_round1 [of _ 50 _ 500], use assms in simp_all)
qed

lemma total_power_in_range:
  assumes "800 \<le> hrv_total_power w" "hrv_total_power w \<le> 5000"
  shows "valueIn 800 5000 (upd_hrv_total_power (calculateNextSimulationValues w m))"
proof (cases m)
  case Heatup
  show ?thesis unfolding Heatup
    by (simp add: calculateNextSimulationValues_def Let_def sim_consts)
       (rule valueIn_round0 [of _ 800 _ 5000], use assms in simp_all)
next
  case Cooldown
  show ?thesis unfolding Cooldown
    by (simp add: calculateNextSimulationValues_def Let_def sim_consts)
       (rule valueIn_round0 [of _ 800 _ 5000], use assms in simp_all)
qed

lemma lf_in_range:
  assumes "200 \<le> hrv_lf w" "hrv_lf w \<le> 1500"
  shows "valueIn 200 1500 (upd_hrv_lf (calculateNextSimulationValues w m))"
proof (cases m)
  case Heatup
  show ?thesis unfolding Heatup
    by (simp add: calculateNextSimulationValues_def Let_def sim_consts)
       (rule valueIn_round0 [of _ 200 _ 1500], use assms in simp_all)
next
  case Cooldown
  show ?thesis unfolding Cooldown
    by (simp add: calculateNextSimulationValues_def Let_def sim_consts)
       (rule valueIn_round0 [of _ 200 _ 1500], use assms in simp_all)
qed

lemma hf_in_range:
  assumes "100 \<le> hrv_hf w" "hrv_hf w \<le> 1000"
  shows "valueIn 100 1000 (upd_hrv_hf (calculateNextSimulationValues w m))"
proof (cases m)
  case Heatup
  show ?thesis unfolding Heatup
    by (simp add: calculateNextSimulationValues_def Let_def sim_consts)
       (rule valueIn_round0 [of _ 100 _ 1000], use assms in simp_all)
next
  case Cooldown
  show ?thesis unfolding Cooldown
    by (simp add: calculateNextSimulationValues_def Let_def sim_consts)
       (rule valueIn_round0 [of _ 100 _ 1000], use assms in simp_all)
qed

lemma mean_nni_in_range:
  "upTo 1200 (upd_hrv_mean_nni (calculateNextSimulationValues w m))"
  by (cases m; simp add: calculateNextSimulationValues_def Let_def sim_consts;
      rule upTo_round0 [of _ 1200]; simp)

text \<open>The bounds coded for the other statistics hold in their mode from any worker.\<close>

lemma pnni_50_coded:
  "upTo 50 (upd_hrv_pnni_50 (calculateNextSimulationValues w Heatup))"
  "notBelow (upd_hrv_pnni_50 (calculateNextSimulationValues w Cooldown)) 5"
  by (simp add: calculateNextSimulationValues_def Let_def sim_consts,
      rule upTo_round1 [of _ 500], simp, simp)
     (simp add: calculateNextSimulationValues_def Let_def sim_consts,
      rule floor_round1 [of _ 50], simp)

lemma total_power_coded:
  "upTo 5000 (upd_hrv_total_power (calculateNextSimulationValues w Heatup))"
  "notBelow (upd_hrv_total_power (calculateNextSimulationValues w Cooldown)) 800"
  by (simp add: calculateNextSimulationValues_def Let_def sim_consts,
      rule upTo_round0 [of _ 5000], simp, simp)
     (simp add: calculateNextSimulationValues_def Let_def sim_consts,
      rule floor_round0 [of _ 800], simp)

lemma lf_coded:
  "upTo 1500 (upd_hrv_lf (calculateNextSimulationValues w Heatup))"
  "notBelow (upd_hrv_lf (calculateNextSimulationValues w Cooldown)) 200"
  by (simp add: calculateNextSimulationValues_def Let_def sim_consts,
      rule upTo_round0 [of _ 1500], simp, simp)
     (simp add: calculateNextSimulationValues_def Let_def sim_consts,
      rule floor_round0 [of _ 200], simp)

lemma hf_coded:
  "upTo 1000 (upd_hrv_hf (calculateNextSimulationValues w Heatup))"
  "notBelow (upd_hrv_hf (calculateNextSimulationValues w Cooldown)) 100"
  by (simp add: calculateNextSimulationValues_def Let_def sim_consts,
      rule upTo_round0 [of _ 1000], simp, simp)
     (simp add: calculateNextSimulationValues_def Let_def sim_consts,
      rule floor_round0 [of _ 100], simp)

text \<open>
  Claim C3.  From a worker whose temperature, humidity, mean heart rate, RMSSD and SDNN lie
  in their documented ranges, the object returned by \<open>calculateNextSimulationValues\<close>
  has, in both modes, after clamping and rounding, temperature in [10, 34], humidity in
  [20, 90], mean heart rate in [50, 110], RMSSD in [15, 120] and SDNN in [20, 150].  The
  other perturbed statistics keep the bounds that the source codes for them: from any
  worker, mean NNI is at most 1200 in both modes, pNN50, total power, LF and HF are at
  most 50, 5000, 1500 and 1000 in heat-up and at least 5, 800, 200 and 100 in cool-down;
  and from a worker whose statistics lie within these bounds they lie within them again,
  in both modes.
\<close>

theorem calculateNextSimulationValues_in_range:
  "(documentedRanges w \<longrightarrow>
      valueIn 10 34 (upd_temperature (calculateNextSimulationValues w m)) \<and>
      valueIn 20 90 (upd_humidity (calculateNextSimulationValues w m)) \<and>
      valueIn 50 110 (upd_hrv_mean_hr (calculateNextSimulationValues w m)) \<and>
      valueIn 15 120 (upd_hrv_rmssd (calculateNextSimulationValues w m)) \<and>
      valueIn 20 150 (upd_hrv_sdnn (calculateNextSimulationValues w m))) \<and>
   upTo 1200 (upd_hrv_mean_nni (calculateNextSimulationValues w m)) \<and>
   upTo 50 (upd_hrv_pnni_50 (calculateNextSimulationValues w Heatup)) \<and>
   upTo 5000 (upd_hrv_total_power (calculateNextSimulationValues w Heatup)) \<and>
   upTo 1500 (upd_hrv_lf (calculateNextSimulationValues w Heatup)) \<and>
   upTo 1000 (upd_hrv_hf (calculateNextSimulationValues w Heatup)) \<and>
   notBelow (upd_hrv_pnni_50 (calculateNextSimulationValues w Cooldown)) 5 \<and>
   notBelow (upd_hrv_total_power (calculateNextSimulationValues w Cooldown)) 800 \<and>
   notBelow (upd_hrv_lf (calculateNextSimulationValues w Cooldown)) 200 \<and>
   notBelow (upd_hrv_hf (calculateNextSimulationValues w Cooldown)) 100 \<and>
   (codedRanges w \<longrightarrow>
      valueIn 5 50 (upd_hrv_pnni_50 (calculateNextSimulationValues w m)) \<and>
      valueIn 800 5000 (upd_hrv_total_power (calculateNextSimulationValues w m)) \<and>
      valueIn 200 1500 (upd_hrv_lf (calculateNextSimulationValues w m)) \<and>
      valueIn 100 1000 (upd_hrv_hf (calculateNextSimulationValues w m)))"
  unfolding documentedRanges_def codedRanges_def
  by (simp add: temperature_in_range humidity_in_range mean_hr_in_range rmssd_in_range
      sdnn_in_range mean_nni_in_range pnni_50_in_range total_power_in_range lf_in_range
      hf_in_range pnni_50_coded total_power_coded lf_coded hf_coded)

theorem calculateNextSimulationValues_in_range_witness:
  "documentedRanges johnDoe \<and> codedRanges johnDoe \<and>
   valueIn 10 34 (upd_temperature (calculateNextSimulationValues johnDoe Heatup)) \<and>
   upd_temperature (calculateNextSimulationValues johnDoe Heatup) = Some 23.2 \<and>
   valueIn 20 90 (upd_humidity (calculateNextSimulationValues johnDoe Cooldown)) \<and>
   upd_humidity (calculateNextSimulationValues johnDoe Cooldown) = Some 41.5 \<and>
   valueIn 100 1000 (upd_hrv_hf (calculateNextSimulationValues johnDoe Cooldown))"
proof -
  have d: "documentedRanges johnDoe"
    by (simp add: documentedRanges_def johnDoe_def)
  have c: "codedRanges johnDoe"
    by (simp add: codedRanges_def johnDoe_def)
  have "upd_temperature (calculateNextSimulationValues johnDoe Heatup) = Some 23.2"
    by (simp add: calculateNextSimulationValues_def Let_def sim_consts johnDoe_def
        Math_round_def)
  moreover have "upd_humidity (calculateNextSimulationValues johnDoe Cooldown) = Some 41.5"
    by (simp add: calculateNextSimulationValues_def Let_def sim_consts johnDoe_def
        Math_round_def)
  ultimately show ?thesis
    using d c calculateNextSimulationValues_in_range [of johnDoe Heatup]
      calculateNextSimulationValues_in_range [of johnDoe Cooldown]
    by simp
qed

section \<open>The termination policy\<close>

text \<open>
  Claim C1.  \<open>shouldContinueSimulation\<close> is false once the step count has reached the
  ceiling of 100.  Below the ceiling it is true in heat-up exactly when the temperature
  is below 34 or the humidity is below 90, and true in cool-down exactly when the
  temperature is above 10 or the humidity is above 20.
\<close>

theorem shouldContinueSimulation_policy:
  "(stepCountRef s \<ge> 100 \<longrightarrow> \<not> shouldContinueSimulation s w m) \<and>
   (stepCountRef s < 100 \<longrightarrow>
      (shouldContinueSimulation s w Heatup \<longleftrightarrow> temperature w < 34 \<or> humidity w < 90) \<and>
      (shouldContinueSimulation s w Cooldown \<longleftrightarrow> temperature w > 10 \<or> humidity w > 20))"
  by (simp add: shouldContinueSimulation_def sim_consts)

theorem shouldContinueSimulation_policy_witness:
  "stepCountRef (idleHook\<lparr>stepCountRef := 100\<rparr>) \<ge> 100 \<and>
   \<not> shouldContinueSimulation (idleHook\<lparr>stepCountRef := 100\<rparr>) johnDoe Heatup \<and>
   stepCountRef idleHook < 100 \<and>
   shouldContinueSimulation idleHook johnDoe Heatup \<and>
   shouldContinueSimulation idleHook johnDoe Cooldown \<and>
   \<not> shouldContinueSimulation idleHook (johnDoe\<lparr>temperature := 34, humidity := 90\<rparr>) Heatup"
  using shouldContinueSimulation_policy [of "idleHook\<lparr>stepCountRef := 100\<rparr>" johnDoe Heatup]
    shouldContinueSimulation_policy [of idleHook johnDoe Heatup]
    shouldContinueSimulation_policy
      [of idleHook "johnDoe\<lparr>temperature := 34, humidity := 90\<rparr>" Heatup]
  by (simp add: idleHook_def initialState_def johnDoe_def)

section \<open>The progress reporter\<close>

text \<open>
  Claim C6.  The progress is documented to lie in [0, 100].  Each leg is capped at 100,
  so the average never exceeds 100; no leg is floored at 0.  At temperature 5 and
  humidity 20 in heat-up the temperature leg is negative and the humidity leg is 0, and
  the result is -125/12, about -10.4.
\<close>

theorem getSimulationProgress_below_zero:
  "getSimulationProgress 5 20 Heatup = - (125 / 12) \<and> getSimulationProgress 5 20 Heatup < 0"
  by (simp add: getSimulationProgress_def sim_consts)

lemma getSimulationProgress_le_100: "getSimulationProgress t h m \<le> 100"
  by (cases m) (simp_all add: getSimulationProgress_def Let_def)

section \<open>Cool-down\<close>

text \<open>Each statistic that cool-down lowers: its floor, its rate, and its heat-up rate.\<close>

lemma mean_hr_relaxes: "relaxes hrv_mean_hr upd_hrv_mean_hr 50 110 (\<lambda>x. x - 1.2) (\<lambda>x. x + 1.5) (1 / 20) w"
proof -
  have "notBelow (upd_hrv_mean_hr (calculateNextSimulationValues w Cooldown)) 50"
    by (simp add: calculateNextSimulationValues_def Let_def sim_consts)
       (rule floor_round1 [of _ 500], simp)
  moreover have "upd_hrv_mean_hr (calculateNextSimulationValues w Cooldown) = Some 50"
    if "hrv_mean_hr w - 1.2 \<le> 50"
    by (simp add: calculateNextSimulationValues_def Let_def sim_consts)
       (rule at_floor_round1 [of _ 500], use that in simp_all)
  moreover have "near (upd_hrv_mean_hr (calculateNextSimulationValues w Cooldown)) (hrv_mean_hr w - 1.2) (1 / 20)"
    if "50 \<le> hrv_mean_hr w - 1.2"
    by (simp add: calculateNextSimulationValues_def Let_def sim_consts)
       (rule near_floor_round1, use that in simp)
  moreover have "near (upd_hrv_mean_hr (calculateNextSimulationValues w Heatup)) (hrv_mean_hr w + 1.5) (1 / 20)"
    if "hrv_mean_hr w + 1.5 \<le> 110"
    by (simp add: calculateNextSimulationValues_def Let_def sim_consts)
       (rule near_cap_round1, use that in simp)
  moreover have "below (upd_hrv_mean_hr (calculateNextSimulationValues w Cooldown)) (hrv_mean_hr w)"
    if "50 < hrv_mean_hr w"
    by (simp add: calculateNextSimulationValues_def Let_def sim_consts)
       (rule relax_round1 [of _ 500], use that in simp_all)
  moreover have "notBelow (upd_hrv_mean_hr (calculateNextSimulationValues w Heatup)) (hrv_mean_hr w)"
    if "50 < hrv_mean_hr w" "hrv_mean_hr w \<le> 110"
    by (simp add: calculateNextSimulationValues_def Let_def sim_consts)
       (rule arouse_round1 [of _ 1100], use that in simp_all)
  ultimately show ?thesis
    by (simp add: relaxes_def)
qed

lemma rmssd_relaxes: "relaxes hrv_rmssd upd_hrv_rmssd 15 120 (\<lambda>x. x * 0.96) (\<lambda>x. x * 1.04) (1 / 20) w"
proof -
  have "notBelow (upd_hrv_rmssd (calculateNextSimulationValues w Cooldown)) 15"
    by (simp add: calculateNextSimulationValues_def Let_def sim_consts)
       (rule floor_round1 [of _ 150], simp)
  moreover have "upd_hrv_rmssd (calculateNextSimulationValues w Cooldown) = Some 15"
    if "hrv_rmssd w * 0.96 \<le> 15"
    by (simp add: calculateNextSimulationValues_def Let_def sim_consts)
       (rule at_floor_round1 [of _ 150], use that in simp_all)
  moreover have "near (upd_hrv_rmssd (calculateNextSimulationValues w Cooldown)) (hrv_rmssd w * 0.96) (1 / 20)"
    if "15 \<le> hrv_rmssd w * 0.96"
    by (simp add: calculateNextSimulationValues_def Let_def sim_consts)
       (rule near_floor_round1, use that in simp)
  moreover have "near (upd_hrv_rmssd (calculateNextSimulationValues w Heatup)) (hrv_rmssd w * 1.04) (1 / 20)"
    if "hrv_rmssd w * 1.04 \<le> 120"
    by (simp add: calculateNextSimulationValues_def Let_def sim_consts)
       (rule near_cap_round1, use that in simp)
  moreover have "below (upd_hrv_rmssd (calculateNextSimulationValues w Cooldown)) (hrv_rmssd w)"
    if "15 < hrv_rmssd w"
    by (simp add: calculateNextSimulationValues_def Let_def sim_consts)
       (rule relax_round1 [of _ 150], use that in simp_all)
  moreover have "notBelow (upd_hrv_rmssd (calculateNextSimulationValues w Heatup)) (hrv_rmssd w)"
    if "15 < hrv_rmssd w" "hrv_rmssd w \<le> 120"
    by (simp add: calculateNextSimulationValues_def Let_def sim_consts)
       (rule arouse_round1 [of _ 1200], use that in simp_all)
  ultimately show ?thesis
    by (simp add: relaxes_def)
qed

lemma sdnn_relaxes: "relaxes hrv_sdnn upd_hrv_sdnn 20 150 (\<lambda>x. x * 0.97) (\<lambda>x. x * 1.03) (1 / 20) w"
proof -
  have "notBelow (upd_hrv_sdnn (calculateNextSimulationValues w Cooldown)) 20"
    by (simp add: calculateNextSimulationValues_def Let_def sim_consts)
       (rule floor_round1 [of _ 200], simp)
  moreover have "upd_hrv_sdnn (calculateNextSimulationValues w Cooldown) = Some 20"
    if "hrv_sdnn w * 0.97 \<le> 20"
    by (simp add: calculateNextSimulationValues_def Let_def sim_consts)
       (rule at_floor_round1 [of _ 200], use that in simp_all)
  moreover have "near (upd_hrv_sdnn (calculateNextSimulationValues w Cooldown)) (hrv_sdnn w * 0.97) (1 / 20)"
    if "20 \<le> hrv_sdnn w * 0.97"
    by (simp add: calculateNextSimulationValues_def Let_def sim_consts)
       (rule near_floor_round1, use that in simp)
  moreover have "near (upd_hrv_sdnn (calculateNextSimulationValues w Heatup)) (hrv_sdnn w * 1.03) (1 / 20)"
    if "hrv_sdnn w * 1.03 \<le> 150"
    by (simp add: calculateNextSimulationValues_def Let_def sim_consts)
       (rule near_cap_round1, use that in simp)
  moreover have "below (upd_hrv_sdnn (calculateNextSimulationValues w Cooldown)) (hrv_sdnn w)"
    if "20 < hrv_sdnn w"
    by (simp add: calculateNextSimulationValues_def Let_def sim_consts)
       (rule relax_round1 [of _ 200], use that in simp_all)
  moreover have "notBelow (upd_hrv_sdnn (calculateNextSimulationValues w Heatup)) (hrv_sdnn w)"
    if "20 < hrv_sdnn w" "hrv_sdnn w \<le> 150"
    by (simp add: calculateNextSimulationValues_def Let_def sim_consts)
       (rule arouse_round1 [of _ 1500], use that in simp_all)
  ultimately show ?thesis
    by (simp add: relaxes_def)
qed

lemma pnni_50_relaxes: "relaxes hrv_pnni_50 upd_hrv_pnni_50 5 50 (\<lambda>x. x * 0.93) (\<lambda>x. x * 1.05) (1 / 20) w"
proof -
  have "notBelow (upd_hrv_pnni_50 (calculateNextSimulationValues w Cooldown)) 5"
    by (simp add: calculateNextSimulationValues_def Let_def sim_consts)
       (rule floor_round1 [of _ 50], simp)
  moreover have "upd_hrv_pnni_50 (calculateNextSimulationValues w Cooldown) = Some 5"
    if "hrv_pnni_50 w * 0.93 \<le> 5"
    by (simp add: calculateNextSimulationValues_def Let_def sim_consts)
       (rule at_floor_round1 [of _ 50], use that in simp_all)
  moreover have "near (upd_hrv_pnni_50 (calculateNextSimulationValues w Cooldown)) (hrv_pnni_50 w * 0.93) (1 / 20)"
    if "5 \<le> hrv_pnni_50 w * 0.93"
    by (simp add: calculateNextSimulationValues_def Let_def sim_consts)
       (rule near_floor_round1, use that in simp)
  moreover have "near (upd_hrv_pnni_50 (calculateNextSimulationValues w Heatup)) (hrv_pnni_50 w * 1.05) (1 / 20)"
    if "hrv_pnni_50 w * 1.05 \<le> 50"
    by (simp add: calculateNextSimulationValues_def Let_def sim_consts)
       (rule near_cap_round1, use that in simp)
  moreover have "below (upd_hrv_pnni_50 (calculateNextSimulationValues w Cooldown)) (hrv_pnni_50 w)"
    if "5 < hrv_pnni_50 w"
    by (simp add: calculateNextSimulationValues_def Let_def sim_consts)
       (rule relax_round1 [of _ 50], use that in simp_all)
  moreover have "notBelow (upd_hrv_pnni_50 (calculateNextSimulationValues w Heatup)) (hrv_pnni_50 w)"
    if "5 < hrv_pnni_50 w" "hrv_pnni_50 w \<le> 50"
    by (simp add: calculateNextSimulationValues_def Let_def sim_consts)
       (rule arouse_round1 [of _ 500], use that in simp_all)
  ultimately show ?thesis
    by (simp add: relaxes_def)
qed

lemma total_power_relaxes: "relaxes hrv_total_power upd_hrv_total_power 800 5000 (\<lambda>x. x * 0.92) (\<lambda>x. x * 1.06) (1 / 2) w"
proof -
  have "notBelow (upd_hrv_total_power (calculateNextSimulationValues w Cooldown)) 800"
    by (simp add: calculateNextSimulationValues_def Let_def sim_consts)
       (rule floor_round0 [of _ 800], simp)
  moreover have "upd_hrv_total_power (calculateNextSimulationValues w Cooldown) = Some 800"
    if "hrv_total_power w * 0.92 \<le> 800"
    by (simp add: calculateNextSimulationValues_def Let_def sim_consts)
       (rule at_floor_round0 [of _ 800], use that in simp_all)
  moreover have "near (upd_hrv_total_power (calculateNextSimulationValues w Cooldown)) (hrv_total_power w * 0.92) (1 / 2)"
    if "800 \<le> hrv_total_power w * 0.92"
    by (simp add: calculateNextSimulationValues_def Let_def sim_consts)
       (rule near_floor_round0, use that in simp)
  moreover have "near (upd_hrv_total_power (calculateNextSimulationValues w Heatup)) (hrv_total_power w * 1.06) (1 / 2)"
    if "hrv_total_power w * 1.06 \<le> 5000"
    by (simp add: calculateNextSimulationValues_def Let_def sim_consts)
       (rule near_cap_round0, use that in simp)
  moreover have "below (upd_hrv_total_power (calculateNextSimulationValues w Cooldown)) (hrv_total_power w)"
    if "800 < hrv_total_power w"
    by (simp add: calculateNextSimulationValues_def Let_def sim_consts)
       (rule relax_round0 [of _ 800], use that in simp_all)
  moreover have "notBelow (upd_hrv_total_power (calculateNextSimulationValues w Heatup)) (hrv_total_power w)"
    if "800 < hrv_total_power w" "hrv_total_power w \<le> 5000"
    by (simp add: calculateNextSimulationValues_def Let_def sim_consts)
       (rule arouse_round0 [of _ 5000], use that in simp_all)
  ultimately show ?thesis
    by (simp add: relaxes_def)
qed

lemma lf_relaxes: "relaxes hrv_lf upd_hrv_lf 200 1500 (\<lambda>x. x * 0.94) (\<lambda>x. x * 1.03) (1 / 2) w"
proof -
  have "notBelow (upd_hrv_lf (calculateNextSimulationValues w Cooldown)) 200"
    by (simp add: calculateNextSimulationValues_def Let_def sim_consts)
       (rule floor_round0 [of _ 200], simp)
  moreover have "upd_hrv_lf (calculateNextSimulationValues w Cooldown) = Some 200"
    if "hrv_lf w * 0.94 \<le> 200"
    by (simp add: calculateNextSimulationValues_def Let_def sim_consts)
       (rule at_floor_round0 [of _ 200], use that in simp_all)
  moreover have "near (upd_hrv_lf (calculateNextSimulationValues w Cooldown)) (hrv_lf w * 0.94) (1 / 2)"
    if "200 \<le> hrv_lf w * 0.94"
    by (simp add: calculateNextSimulationValues_def Let_def sim_consts)
       (rule near_floor_round0, use that in simp)
  moreover have "near (upd_hrv_lf (calculateNextSimulationValues w Heatup)) (hrv_lf w * 1.03) (1 / 2)"
    if "hrv_lf w * 1.03 \<le> 1500"
    by (simp add: calculateNextSimulationValues_def Let_def sim_consts)
       (rule near_cap_round0, use that in simp)
  moreover have "below (upd_hrv_lf (calculateNextSimulationValues w Cooldown)) (hrv_lf w)"
    if "200 < hrv_lf w"
    by (simp add: calculateNextSimulationValues_def Let_def sim_consts)
       (rule relax_round0 [of _ 200], use that in simp_all)
  moreover have "notBelow (upd_hrv_lf (calculateNextSimulationValues w Heatup)) (hrv_lf w)"
    if "200 < hrv_lf w" "hrv_lf w \<le> 1500"
    by (simp add: calculateNextSimulationValues_def Let_def sim_consts)
       (rule arouse_round0 [of _ 1500], use that in simp_all)
  ultimately show ?thesis
    by (simp add: relaxes_def)
qed

lemma hf_relaxes: "relaxes hrv_hf upd_hrv_hf 100 1000 (\<lambda>x. x * 0.90) (\<lambda>x. x * 1.08) (1 / 2) w"
proof -
  have "notBelow (upd_hrv_hf (calculateNextSimulationValues w Cooldown)) 100"
    by (simp add: calculateNextSimulationValues_def Let_def sim_consts)
       (rule floor_round0 [of _ 100], simp)
  moreover have "upd_hrv_hf (calculateNextSimulationValues w Cooldown) = Some 100"
    if "hrv_hf w * 0.90 \<le> 100"
    by (simp add: calculateNextSimulationValues_def Let_def sim_consts)
       (rule at_floor_round0 [of _ 100], use that in simp_all)
  moreover have "near (upd_hrv_hf (calculateNextSimulationValues w Cooldown)) (hrv_hf w * 0.90) (1 / 2)"
    if "100 \<le> hrv_hf w * 0.90"
    by (simp add: calculateNextSimulationValues_def Let_def sim_consts)
       (rule near_floor_round0, use that in simp)
  moreover have "near (upd_hrv_hf (calculateNextSimulationValues w Heatup)) (hrv_hf w * 1.08) (1 / 2)"
    if "hrv_hf w * 1.08 \<le> 1000"
    by (simp add: calculateNextSimulationValues_def Let_def sim_consts)
       (rule near_cap_round0, use that in simp)
  moreover have "below (upd_hrv_hf (calculateNextSimulationValues w Cooldown)) (hrv_hf w)"
    if "100 < hrv_hf w"
    by (simp add: calculateNextSimulationValues_def Let_def sim_consts)
       (rule relax_round0 [of _ 100], use that in simp_all)
  moreover have "notBelow (upd_hrv_hf (calculateNextSimulationValues w Heatup)) (hrv_hf w)"
    if "100 < hrv_hf w" "hrv_hf w \<le> 1000"
    by (simp add: calculateNextSimulationValues_def Let_def sim_consts)
       (rule arouse_round0 [of _ 1000], use that in simp_all)
  ultimately show ?thesis
    by (simp add: relaxes_def)
qed

lemma mean_nni_rate:
  assumes "hrv_mean_nni w * 1.04 \<le> 1200"
  shows "near (upd_hrv_mean_nni (calculateNextSimulationValues w m))
           (hrv_mean_nni w * 1.04) (1 / 2)"
proof -
  have "near (Some (Math_round (min 1200 (hrv_mean_nni w * 1.04))))
          (hrv_mean_nni w * 1.04) (1 / 2)"
    using assms by (rule near_cap_round0)
  then show ?thesis
    by (cases m) (simp_all add: calculateNextSimulationValues_def Let_def)
qed

text \<open>
  Claim C7, as stated, fails for mean NNI.  From a mean NNI of 800 the cool-down value is
  832: it is the value that heat-up gives, obtained at the same rate 1.04 and capped at
  1200 rather than floored.
\<close>

theorem cooldown_mean_nni_counterexample:
  "hrv_mean_nni johnDoe = 800 \<and>
   upd_hrv_mean_nni (calculateNextSimulationValues johnDoe Cooldown) = Some 832 \<and>
   upd_hrv_mean_nni (calculateNextSimulationValues johnDoe Heatup) = Some 832"
  by (simp add: calculateNextSimulationValues_def Let_def johnDoe_def Math_round_def)

text \<open>
  Claim C7, amended.  In cool-down, mean heart rate and the statistics RMSSD, SDNN, pNN50,
  total power, LF and HF move toward a resting baseline, each at its own rate: 1.2 is
  subtracted from the heart rate, and the statistics are multiplied by 0.96, 0.97, 0.93,
  0.92, 0.94 and 0.90.  Each of these rates differs from the heat-up rate of the same
  quantity (1.5 added; times 1.04, 1.03, 1.05, 1.06, 1.03 and 1.08), and each quantity is
  floored at a fixed minimum (50, 15, 20, 5, 800, 200, 100).  The values are rounded, to
  one decimal or to an integer.  Mean NNI is the exception: in cool-down it is computed
  exactly as in heat-up, multiplied by 1.04 and capped at 1200, with no floor.
\<close>

theorem cooldown_relaxation:
  "relaxes hrv_mean_hr upd_hrv_mean_hr 50 110 (\<lambda>x. x - 1.2) (\<lambda>x. x + 1.5) (1 / 20) w \<and>
   relaxes hrv_rmssd upd_hrv_rmssd 15 120 (\<lambda>x. x * 0.96) (\<lambda>x. x * 1.04) (1 / 20) w \<and>
   relaxes hrv_sdnn upd_hrv_sdnn 20 150 (\<lambda>x. x * 0.97) (\<lambda>x. x * 1.03) (1 / 20) w \<and>
   relaxes hrv_pnni_50 upd_hrv_pnni_50 5 50 (\<lambda>x. x * 0.93) (\<lambda>x. x * 1.05) (1 / 20) w \<and>
   relaxes hrv_total_power upd_hrv_total_power 800 5000 (\<lambda>x. x * 0.92) (\<lambda>x. x * 1.06) (1 / 2) w \<and>
   relaxes hrv_lf upd_hrv_lf 200 1500 (\<lambda>x. x * 0.94) (\<lambda>x. x * 1.03) (1 / 2) w \<and>
   relaxes hrv_hf upd_hrv_hf 100 1000 (\<lambda>x. x * 0.90) (\<lambda>x. x * 1.08) (1 / 2) w \<and>
   upd_hrv_mean_nni (calculateNextSimulationValues w Cooldown) =
     upd_hrv_mean_nni (calculateNextSimulationValues w Heatup) \<and>
   upTo 1200 (upd_hrv_mean_nni (calculateNextSimulationValues w Cooldown)) \<and>
   (hrv_mean_nni w * 1.04 \<le> 1200 \<longrightarrow>
      near (upd_hrv_mean_nni (calculateNextSimulationValues w Cooldown))
        (hrv_mean_nni w * 1.04) (1 / 2))"
proof -
  have same: "upd_hrv_mean_nni (calculateNextSimulationValues w Cooldown) =
        upd_hrv_mean_nni (calculateNextSimulationValues w Heatup)"
    by (simp add: calculateNextSimulationValues_def Let_def)
  show ?thesis
    by (intro conjI impI mean_hr_relaxes rmssd_relaxes sdnn_relaxes pnni_50_relaxes
        total_power_relaxes lf_relaxes hf_relaxes same mean_nni_in_range mean_nni_rate)
       assumption
qed

theorem cooldown_relaxation_witness:
  "50 \<le> hrv_mean_hr johnDoe - 1.2 \<and> hrv_mean_hr johnDoe + 1.5 \<le> 110 \<and>
   near (upd_hrv_mean_hr (calculateNextSimulationValues johnDoe Cooldown))
     (hrv_mean_hr johnDoe - 1.2) (1 / 20) \<and>
   near (upd_hrv_mean_hr (calculateNextSimulationValues johnDoe Heatup))
     (hrv_mean_hr johnDoe + 1.5) (1 / 20) \<and>
   100 \<le> hrv_hf johnDoe * 0.90 \<and> hrv_hf johnDoe * 1.08 \<le> 1000 \<and>
   near (upd_hrv_hf (calculateNextSimulationValues johnDoe Cooldown))
     (hrv_hf johnDoe * 0.90) (1 / 2) \<and>
   near (upd_hrv_hf (calculateNextSimulationValues johnDoe Heatup))
     (hrv_hf johnDoe * 1.08) (1 / 2) \<and>
   below (upd_hrv_hf (calculateNextSimulationValues johnDoe Cooldown)) (hrv_hf johnDoe) \<and>
   notBelow (upd_hrv_hf (calculateNextSimulationValues johnDoe Heatup)) (hrv_hf johnDoe) \<and>
   hrv_mean_nni johnDoe * 1.04 \<le> 1200 \<and>
   near (upd_hrv_mean_nni (calculateNextSimulationValues johnDoe Cooldown))
     (hrv_mean_nni johnDoe * 1.04) (1 / 2)"
proof -
  have h: "50 \<le> hrv_mean_hr johnDoe - 1.2 \<and> hrv_mean_hr johnDoe + 1.5 \<le> 110 \<and>
           100 \<le> hrv_hf johnDoe * 0.90 \<and> hrv_hf johnDoe * 1.08 \<le> 1000 \<and>
           100 < hrv_hf johnDoe \<and> hrv_hf johnDoe \<le> 1000 \<and>
           hrv_mean_nni johnDoe * 1.04 \<le> 1200"
    by (simp add: johnDoe_def)
  note t = cooldown_relaxation [of johnDoe]
  note hr = t [THEN conjunct1, unfolded relaxes_def]
  note hf = t [THEN conjunct2, THEN conjunct2, THEN conjunct2, THEN conjunct2,
    THEN conjunct2, THEN conjunct2, THEN conjunct1, unfolded relaxes_def]
  note nn = t [THEN conjunct2, THEN conjunct2, THEN conjunct2, THEN conjunct2,
    THEN conjunct2, THEN conjunct2, THEN conjunct2, THEN conjunct2, THEN conjunct2]
  show ?thesis
    using h hr hf nn by simp
qed

section \<open>One tick of the simulation loop\<close>

lemma begin_running:
  assumes "running s m w"
  shows "performSimulationStep_begin s =
    (s\<lparr>currentWorkerValuesRef := Some w\<rparr>,
     Some \<lparr>call_targetWorker = w, call_simulationType = m\<rparr>)"
  using assms
  by (auto simp: running_def workingSubject_def performSimulationStep_begin_def
      split: option.splits)

lemma step_running:
  assumes "running s m w"
  shows "performSimulationStep r s =
    performSimulationStep_resume \<lparr>call_targetWorker = w, call_simulationType = m\<rparr> r
      (s\<lparr>currentWorkerValuesRef := Some w\<rparr>)"
  by (simp add: performSimulationStep_def begin_running [OF assms])

text \<open>A failing tick within both budgets and below the step ceiling leaves the run running.\<close>

lemma failed_continues:
  assumes "running s m w" "consecutiveErrorsRef s + 1 < 3" "errorCountRef s + 1 < 10"
    "stepCountRef s + 1 < 100"
  shows "isActiveRef (performSimulationStep (Rejected e) s)"
    "simulationTypeRef (performSimulationStep (Rejected e) s) = Some m"
    "currentWorkerValuesRef (performSimulationStep (Rejected e) s) =
       Some (spread w (calculateNextSimulationValues w m))"
    "intervalRef (performSimulationStep (Rejected e) s) = intervalRef s"
    "stopLog (performSimulationStep (Rejected e) s) = stopLog s"
    "stepCountRef (performSimulationStep (Rejected e) s) = stepCountRef s + 1"
    "errorCountRef (performSimulationStep (Rejected e) s) = errorCountRef s + 1"
    "consecutiveErrorsRef (performSimulationStep (Rejected e) s) = consecutiveErrorsRef s + 1"
  using assms
  by (simp_all add: step_running [OF assms(1)] performSimulationStep_resume_def Let_def
      running_def MAX_SIMULATION_STEPS_def)

lemma failed_running:
  assumes "running s m w" "consecutiveErrorsRef s + 1 < 3" "errorCountRef s + 1 < 10"
    "stepCountRef s + 1 < 100"
  shows "running (performSimulationStep (Rejected e) s) m (spread w (calculateNextSimulationValues w m))"
  using failed_continues(1-3) [OF assms] by (simp add: running_def workingSubject_def)

lemma failed_ceiling:
  assumes "running s m w" "consecutiveErrorsRef s + 1 < 3" "errorCountRef s + 1 < 10"
    "stepCountRef s + 1 \<ge> 100"
  shows "\<not> isActiveRef (performSimulationStep (Rejected e) s)"
    "intervalRef (performSimulationStep (Rejected e) s) = None"
    "stopLog (performSimulationStep (Rejected e) s) = stopLog s @ [''Maximum steps reached'']"
  using assms
  by (simp_all add: step_running [OF assms(1)] performSimulationStep_resume_def Let_def
      running_def MAX_SIMULATION_STEPS_def stopSimulation_def clearSimulationInterval_def
      reasonText_def)

lemma failed_consecutive:
  assumes "running s m w" "consecutiveErrorsRef s + 1 \<ge> 3"
  shows "\<not> isActiveRef (performSimulationStep (Rejected e) s)"
    "intervalRef (performSimulationStep (Rejected e) s) = None"
    "stopLog (performSimulationStep (Rejected e) s) = stopLog s @ [''Too many consecutive errors'']"
  using assms
  by (simp_all add: step_running [OF assms(1)] performSimulationStep_resume_def Let_def
      running_def stopSimulation_def clearSimulationInterval_def reasonText_def)

lemma failed_total:
  assumes "running s m w" "consecutiveErrorsRef s + 1 < 3" "errorCountRef s + 1 \<ge> 10"
  shows "\<not> isActiveRef (performSimulationStep (Rejected e) s)"
    "intervalRef (performSimulationStep (Rejected e) s) = None"
    "stopLog (performSimulationStep (Rejected e) s) = stopLog s @ [''Too many total errors'']"
  using assms
  by (simp_all add: step_running [OF assms(1)] performSimulationStep_resume_def Let_def
      running_def stopSimulation_def clearSimulationInterval_def reasonText_def)

lemma success_counters:
  assumes "running s m w"
  shows "consecutiveErrorsRef (performSimulationStep (Resolved p) s) = 0"
    "isActiveRef (performSimulationStep (Resolved p) s) \<Longrightarrow> errorCountRef (performSimulationStep (Resolved p) s) = errorCountRef s"
    "\<not> isActiveRef (performSimulationStep (Resolved p) s) \<Longrightarrow>
       errorCountRef (performSimulationStep (Resolved p) s) = 0 \<and>
       stopLog (performSimulationStep (Resolved p) s) = stopLog s @ [''Simulation completed successfully'']"
  using assms
  by (simp_all add: step_running [OF assms(1)] performSimulationStep_resume_def Let_def
      running_def stopSimulation_def clearSimulationInterval_def reasonText_def
      split: if_splits)

subsection \<open>A failing tick and the termination policy\<close>

text \<open>
  Claim C2, as stated, fails.  A heat-up run on a subject at temperature 34 and humidity
  90 takes a tick whose oracle call fails.  Both error counters stay within their budgets
  and the termination policy is false on the candidate state, yet the run is still
  active, its timer armed, and no stop reason has been logged.
\<close>

theorem failed_tick_counterexample:
  "isActiveRef saturatedRun \<and>
   consecutiveErrorsRef (performSimulationStep failed saturatedRun) < 3 \<and>
   errorCountRef (performSimulationStep failed saturatedRun) < 10 \<and>
   \<not> shouldContinueSimulation (performSimulationStep failed saturatedRun)
       (spread saturatedDoe (calculateNextSimulationValues saturatedDoe Heatup)) Heatup \<and>
   isActiveRef (performSimulationStep failed saturatedRun) \<and>
   intervalRef (performSimulationStep failed saturatedRun) \<noteq> None \<and>
   stopLog (performSimulationStep failed saturatedRun) = stopLog saturatedRun"
  by code_simp

text \<open>
  Claim C2, amended.  On a tick of a running loop whose oracle call fails within both
  budgets, the termination policy is not evaluated: the step counter is incremented, and
  the run stops, with the reason "Maximum steps reached", exactly when the counter has
  reached the ceiling of 100; below the ceiling the run stays active on the candidate
  state, whatever its temperature and humidity.  A failure that exhausts a budget stops
  the run with the budget's reason before anything else is checked.
\<close>

theorem failed_tick_checks_ceiling_only:
  assumes "running s m w"
  shows
    "(consecutiveErrorsRef s + 1 < 3 \<and> errorCountRef s + 1 < 10 \<and> stepCountRef s + 1 < 100 \<longrightarrow>
        isActiveRef (performSimulationStep (Rejected e) s) \<and> intervalRef (performSimulationStep (Rejected e) s) = intervalRef s \<and> stopLog (performSimulationStep (Rejected e) s) = stopLog s \<and>
        stepCountRef (performSimulationStep (Rejected e) s) = stepCountRef s + 1 \<and>
        currentWorkerValuesRef (performSimulationStep (Rejected e) s) = Some (spread w (calculateNextSimulationValues w m))) \<and>
     (consecutiveErrorsRef s + 1 < 3 \<and> errorCountRef s + 1 < 10 \<and> stepCountRef s + 1 \<ge> 100 \<longrightarrow>
        \<not> isActiveRef (performSimulationStep (Rejected e) s) \<and> intervalRef (performSimulationStep (Rejected e) s) = None \<and>
        stopLog (performSimulationStep (Rejected e) s) = stopLog s @ [''Maximum steps reached'']) \<and>
     (consecutiveErrorsRef s + 1 \<ge> 3 \<longrightarrow>
        \<not> isActiveRef (performSimulationStep (Rejected e) s) \<and> intervalRef (performSimulationStep (Rejected e) s) = None \<and>
        stopLog (performSimulationStep (Rejected e) s) = stopLog s @ [''Too many consecutive errors'']) \<and>
     (consecutiveErrorsRef s + 1 < 3 \<and> errorCountRef s + 1 \<ge> 10 \<longrightarrow>
        \<not> isActiveRef (performSimulationStep (Rejected e) s) \<and> intervalRef (performSimulationStep (Rejected e) s) = None \<and>
        stopLog (performSimulationStep (Rejected e) s) = stopLog s @ [''Too many total errors''])"
  using failed_continues [OF assms, of e] failed_ceiling [OF assms, of e]
    failed_consecutive [OF assms, of e] failed_total [OF assms, of e]
  by simp

theorem failed_tick_checks_ceiling_only_witness:
  "running saturatedRun Heatup saturatedDoe \<and>
   consecutiveErrorsRef saturatedRun + 1 < 3 \<and> errorCountRef saturatedRun + 1 < 10 \<and>
   stepCountRef saturatedRun + 1 < 100 \<and>
   isActiveRef (performSimulationStep failed saturatedRun) \<and>
   stepCountRef (performSimulationStep failed saturatedRun) = stepCountRef saturatedRun + 1 \<and>
   running (saturatedRun\<lparr>stepCountRef := 99\<rparr>) Heatup saturatedDoe \<and>
   \<not> isActiveRef (performSimulationStep failed (saturatedRun\<lparr>stepCountRef := 99\<rparr>)) \<and>
   stopLog (performSimulationStep failed (saturatedRun\<lparr>stepCountRef := 99\<rparr>)) =
     stopLog saturatedRun @ [''Maximum steps reached'']"
proof -
  have r: "running saturatedRun Heatup saturatedDoe"
    by code_simp
  have r': "running (saturatedRun\<lparr>stepCountRef := 99\<rparr>) Heatup saturatedDoe"
    by code_simp
  have b: "consecutiveErrorsRef saturatedRun = 0 \<and> errorCountRef saturatedRun = 0 \<and>
           stepCountRef saturatedRun = 0"
    by code_simp
  show ?thesis
    using r r' b
      failed_tick_checks_ceiling_only [OF r, of "''Request timed out''"]
      failed_tick_checks_ceiling_only [OF r', of "''Request timed out''"]
    by (simp add: failed_def)
qed

subsection \<open>The error budget\<close>

lemma ticks_append:
  "ticks (results @ [r]) s =
     (if intervalRef (ticks results s) = None then ticks results s
      else performSimulationStep r (ticks results s))"
  by (induction results arbitrary: s) auto

lemma live_running:
  assumes "live s m"
  shows "\<exists>w. running s m w"
  using assms by (auto simp: live_def running_def workingSubject_def)

lemma failures_snoc:
  "failures (results @ [r]) = failures results + (if isRejected r then 1 else 0)"
  by (simp add: failures_def)

lemma trailing_snoc:
  "trailing (results @ [r]) = (if isRejected r then trailing results + 1 else 0)"
  by (simp add: trailing_def)

text \<open>
  One tick of a live run: either the run is live afterwards, nothing is logged, and the
  counters have counted the tick, or the run has stopped.
\<close>

lemma live_step:
  assumes "live s m"
  shows "(live (performSimulationStep r s) m \<and>
          stopLog (performSimulationStep r s) = stopLog s \<and>
          errorCountRef (performSimulationStep r s) =
            errorCountRef s + (if isRejected r then 1 else 0) \<and>
          consecutiveErrorsRef (performSimulationStep r s) =
            (if isRejected r then consecutiveErrorsRef s + 1 else 0)) \<or>
         (\<not> isActiveRef (performSimulationStep r s) \<and>
          intervalRef (performSimulationStep r s) = None)"
proof -
  obtain w where run: "running s m w"
    using live_running [OF assms] by blast
  show ?thesis
  proof (cases r)
    case (Resolved p)
    show ?thesis
      using assms unfolding Resolved
      by (auto simp: step_running [OF run] performSimulationStep_resume_def Let_def live_def
          stopSimulation_def clearSimulationInterval_def)
  next
    case (Rejected e)
    show ?thesis
      using assms unfolding Rejected
      by (auto simp: step_running [OF run] performSimulationStep_resume_def Let_def live_def
          stopSimulation_def clearSimulationInterval_def)
  qed
qed

text \<open>
  Over the ticks of a run started with both counters at zero: while the run is active it
  is live, nothing has been logged, the total-error counter is the number of failed ticks
  and the consecutive-error counter is the number of failed ticks since the last success.
\<close>

lemma ticks_counters:
  assumes "live s0 m" "errorCountRef s0 = 0" "consecutiveErrorsRef s0 = 0"
  shows "(isActiveRef (ticks results s0) \<longrightarrow>
            live (ticks results s0) m \<and> stopLog (ticks results s0) = stopLog s0 \<and>
            errorCountRef (ticks results s0) = failures results \<and>
            consecutiveErrorsRef (ticks results s0) = trailing results) \<and>
         (\<not> isActiveRef (ticks results s0) \<longrightarrow> intervalRef (ticks results s0) = None)"
proof (induction results rule: rev_induct)
  case Nil
  show ?case
    using assms by (simp add: failures_def trailing_def live_def)
next
  case (snoc r results)
  let ?t = "ticks results s0"
  show ?case
  proof (cases "isActiveRef ?t")
    case True
    with snoc have l: "live ?t m" and c: "stopLog ?t = stopLog s0"
      "errorCountRef ?t = failures results" "consecutiveErrorsRef ?t = trailing results"
      by simp_all
    have armed: "intervalRef ?t \<noteq> None"
      using l by (simp add: live_def)
    have step: "ticks (results @ [r]) s0 = performSimulationStep r ?t"
      using armed by (auto simp: ticks_append)
    show ?thesis
      unfolding step using live_step [OF l, of r] c
      by (auto simp: failures_snoc trailing_snoc live_def)
  next
    case False
    with snoc have "intervalRef ?t = None"
      by simp
    then have "ticks (results @ [r]) s0 = ?t"
      by (simp add: ticks_append)
    then show ?thesis
      using False \<open>intervalRef ?t = None\<close> by simp
  qed
qed

lemma ticks_snoc_live:
  assumes "live s0 m" "errorCountRef s0 = 0" "consecutiveErrorsRef s0 = 0"
    and "isActiveRef (ticks results s0)"
  shows "ticks (results @ [r]) s0 = performSimulationStep r (ticks results s0)"
    and "\<exists>w. running (ticks results s0) m w"
    and "stopLog (ticks results s0) = stopLog s0"
    and "errorCountRef (ticks results s0) = failures results"
    and "consecutiveErrorsRef (ticks results s0) = trailing results"
proof -
  note inv = ticks_counters [OF assms(1-3), of results, THEN conjunct1, rule_format, OF assms(4)]
  have l: "live (ticks results s0) m"
    using inv by simp
  then have "intervalRef (ticks results s0) \<noteq> None"
    by (simp add: live_def)
  then show "ticks (results @ [r]) s0 = performSimulationStep r (ticks results s0)"
    by (auto simp: ticks_append)
  show "\<exists>w. running (ticks results s0) m w"
    by (rule live_running [OF l])
  show "stopLog (ticks results s0) = stopLog s0"
    "errorCountRef (ticks results s0) = failures results"
    "consecutiveErrorsRef (ticks results s0) = trailing results"
    using inv by simp_all
qed

text \<open>
  Claim C4.  Take a run started live with both error counters at zero, and any ticks of
  it after which it is still active.  The total-error counter is then the number of those
  ticks that failed and the consecutive-error counter the number that failed since the last
  success.  If the last two ticks failed, a further failing tick, the third in a row, stops
  the run with the consecutive-error reason, whatever the total.  If nine ticks have failed
  and the last two have not both failed, a further failing tick, the tenth failure in
  total and not the third in a row, stops the run with the total-error reason.  A
  successful tick resets the consecutive-error counter to zero and, when the run goes on,
  leaves the total-error counter as it was; when it completes the run, the run stops with
  the completion reason, and the teardown clears the counters as every stop does.
\<close>

theorem error_budget:
  assumes "live s0 m" "errorCountRef s0 = 0" "consecutiveErrorsRef s0 = 0"
  shows
    "(isActiveRef (ticks results s0) \<longrightarrow>
        errorCountRef (ticks results s0) = failures results \<and>
        consecutiveErrorsRef (ticks results s0) = trailing results) \<and>
     (isActiveRef (ticks results s0) \<and> trailing results = 2 \<longrightarrow>
        \<not> isActiveRef (ticks (results @ [Rejected e]) s0) \<and>
        intervalRef (ticks (results @ [Rejected e]) s0) = None \<and>
        stopLog (ticks (results @ [Rejected e]) s0) =
          stopLog s0 @ [''Too many consecutive errors'']) \<and>
     (isActiveRef (ticks results s0) \<and> failures results = 9 \<and> trailing results < 2 \<longrightarrow>
        \<not> isActiveRef (ticks (results @ [Rejected e]) s0) \<and>
        intervalRef (ticks (results @ [Rejected e]) s0) = None \<and>
        stopLog (ticks (results @ [Rejected e]) s0) =
          stopLog s0 @ [''Too many total errors'']) \<and>
     (isActiveRef (ticks results s0) \<longrightarrow>
        consecutiveErrorsRef (ticks (results @ [Resolved p]) s0) = 0 \<and>
        (isActiveRef (ticks (results @ [Resolved p]) s0) \<longrightarrow>
           errorCountRef (ticks (results @ [Resolved p]) s0) =
             errorCountRef (ticks results s0)) \<and>
        (\<not> isActiveRef (ticks (results @ [Resolved p]) s0) \<longrightarrow>
           stopLog (ticks (results @ [Resolved p]) s0) =
             stopLog s0 @ [''Simulation completed successfully'']))"
proof (cases "isActiveRef (ticks results s0)")
  case False
  then show ?thesis by simp
next
  case True
  let ?t = "ticks results s0"
  note t = ticks_snoc_live [OF assms True]
  obtain w where run: "running ?t m w"
    using t(2) by blast
  have third: "\<not> isActiveRef (ticks (results @ [Rejected e]) s0) \<and>
        intervalRef (ticks (results @ [Rejected e]) s0) = None \<and>
        stopLog (ticks (results @ [Rejected e]) s0) =
          stopLog s0 @ [''Too many consecutive errors'']"
    if "trailing results = 2"
  proof -
    have "consecutiveErrorsRef ?t + 1 \<ge> 3"
      using that t(5) by simp
    from failed_consecutive [OF run this, of e] show ?thesis
      by (simp add: t(1) [of "Rejected e"] t(3))
  qed
  have tenth: "\<not> isActiveRef (ticks (results @ [Rejected e]) s0) \<and>
        intervalRef (ticks (results @ [Rejected e]) s0) = None \<and>
        stopLog (ticks (results @ [Rejected e]) s0) =
          stopLog s0 @ [''Too many total errors'']"
    if "failures results = 9" "trailing results < 2"
  proof -
    have "consecutiveErrorsRef ?t + 1 < 3" "errorCountRef ?t + 1 \<ge> 10"
      using that t(4,5) by simp_all
    from failed_total [OF run this, of e] show ?thesis
      by (simp add: t(1) [of "Rejected e"] t(3))
  qed
  have success: "consecutiveErrorsRef (ticks (results @ [Resolved p]) s0) = 0 \<and>
        (isActiveRef (ticks (results @ [Resolved p]) s0) \<longrightarrow>
           errorCountRef (ticks (results @ [Resolved p]) s0) = errorCountRef ?t) \<and>
        (\<not> isActiveRef (ticks (results @ [Resolved p]) s0) \<longrightarrow>
           stopLog (ticks (results @ [Resolved p]) s0) =
             stopLog s0 @ [''Simulation completed successfully''])"
    using success_counters [OF run, of p]
    by (simp add: t(1) [of "Resolved p"] t(3))
  show ?thesis
    using True t(4,5) third tenth success by blast
qed

theorem error_budget_witness:
  "live heatUpRun Heatup \<and> errorCountRef heatUpRun = 0 \<and> consecutiveErrorsRef heatUpRun = 0 \<and>
   isActiveRef (ticks [failed, failed] heatUpRun) \<and> trailing [failed, failed] = 2 \<and>
   failures [failed, failed] = 2 \<and>
   stopLog (ticks ([failed, failed] @ [failed]) heatUpRun) =
     [''Starting new simulation'', ''Too many consecutive errors''] \<and>
   isActiveRef (ticks nineFailures heatUpRun) \<and> failures nineFailures = 9 \<and>
   trailing nineFailures = 1 \<and>
   errorCountRef (ticks nineFailures heatUpRun) = 9 \<and>
   consecutiveErrorsRef (ticks nineFailures heatUpRun) = 1 \<and>
   stopLog (ticks (nineFailures @ [failed]) heatUpRun) =
     [''Starting new simulation'', ''Too many total errors''] \<and>
   isActiveRef (ticks [failed] heatUpRun) \<and> isActiveRef (ticks ([failed] @ [ok]) heatUpRun) \<and>
   consecutiveErrorsRef (ticks ([failed] @ [ok]) heatUpRun) = 0 \<and>
   errorCountRef (ticks ([failed] @ [ok]) heatUpRun) = 1"
proof -
  have l: "live heatUpRun Heatup" by code_simp
  have z: "errorCountRef heatUpRun = 0" "consecutiveErrorsRef heatUpRun = 0" by code_simp+
  have log: "stopLog heatUpRun = [''Starting new simulation'']" by code_simp
  have a2: "isActiveRef (ticks [failed, failed] heatUpRun)" by code_simp
  have c2: "trailing [failed, failed] = 2" "failures [failed, failed] = 2" by code_simp+
  have a9: "isActiveRef (ticks nineFailures heatUpRun)" by code_simp
  have c9: "failures nineFailures = 9" "trailing nineFailures = 1" by code_simp+
  have a1: "isActiveRef (ticks [failed] heatUpRun)"
    "isActiveRef (ticks ([failed] @ [ok]) heatUpRun)" by code_simp+
  have c1: "failures [failed] = 1" by code_simp
  note two = error_budget [OF l z, of "[failed, failed]" "''Request timed out''"]
  note nine = error_budget [OF l z, of nineFailures "''Request timed out''"]
  note one = error_budget [OF l z, of "[failed]" _ samplePrediction]
  have r2: "stopLog (ticks ([failed, failed] @ [failed]) heatUpRun) =
     [''Starting new simulation'', ''Too many consecutive errors'']"
    using two a2 c2 log by (simp add: failed_def)
  have r9: "errorCountRef (ticks nineFailures heatUpRun) = 9 \<and>
     consecutiveErrorsRef (ticks nineFailures heatUpRun) = 1 \<and>
     stopLog (ticks (nineFailures @ [failed]) heatUpRun) =
       [''Starting new simulation'', ''Too many total errors'']"
    using nine a9 c9 log by (simp add: failed_def)
  have r1: "consecutiveErrorsRef (ticks ([failed] @ [ok]) heatUpRun) = 0 \<and>
     errorCountRef (ticks ([failed] @ [ok]) heatUpRun) = 1"
    using one a1 c1 by (simp add: ok_def)
  show ?thesis
    using l z a2 c2 a9 c9 a1 r2 r9 r1 by simp
qed

section \<open>Overlapping ticks\<close>

lemma timer_reenters:
  assumes "running s m w" "intervalRef s \<noteq> None"
  shows "timerFires (s, calls) =
    (s\<lparr>currentWorkerValuesRef := Some w\<rparr>,
     calls @ [\<lparr>call_targetWorker = w, call_simulationType = m\<rparr>])"
  using assms(2) by (simp add: timerFires_def begin_running [OF assms(1)])

lemma shouldContinue_stepCount:
  "stepCountRef a = stepCountRef b \<Longrightarrow>
   shouldContinueSimulation a x m = shouldContinueSimulation b x m"
  by (simp add: shouldContinueSimulation_def)

lemma shouldContinue_earlier:
  "shouldContinueSimulation (s\<lparr>stepCountRef := Suc n\<rparr>) x m \<Longrightarrow>
   shouldContinueSimulation (s\<lparr>stepCountRef := n\<rparr>) x m"
  by (simp add: shouldContinueSimulation_def split: if_splits)

lemma spread_annotated:
  "spread w (u\<lparr> upd_riskScore := Some a, upd_predictedClass := Some b,
                upd_confidence := Some c \<rparr>) =
   (spread w u)\<lparr> riskScore := a, predictedClass := b, confidence := c \<rparr>"
  by (simp add: spread_def key_def)

text \<open>The second part of a step whose oracle call resolved, when the run goes on.\<close>

lemma resolved_continues:
  assumes "shouldContinueSimulation (s\<lparr>stepCountRef := stepCountRef s + 1\<rparr>)
             (spread w (calculateNextSimulationValues w m)) m"
  shows "stepCountRef (performSimulationStep_resume
            \<lparr>call_targetWorker = w, call_simulationType = m\<rparr> (Resolved p) s) =
           stepCountRef s + 1"
    and "length (workerUpdates (performSimulationStep_resume
            \<lparr>call_targetWorker = w, call_simulationType = m\<rparr> (Resolved p) s)) =
           length (workerUpdates s) + 1"
    and "currentWorkerValuesRef (performSimulationStep_resume
            \<lparr>call_targetWorker = w, call_simulationType = m\<rparr> (Resolved p) s) =
           Some ((spread w (calculateNextSimulationValues w m))\<lparr>
                   riskScore := Some (risk_score p),
                   predictedClass := Some (predicted_class p),
                   confidence := Some (pred_confidence p) \<rparr>)"
proof -
  have "shouldContinueSimulation
          (s\<lparr>workerUpdates := a, currentWorkerValuesRef := b, ui_currentValues := c,
             stepCountRef := stepCountRef s + 1, consecutiveErrorsRef := 0\<rparr>) x m =
        shouldContinueSimulation (s\<lparr>stepCountRef := stepCountRef s + 1\<rparr>) x m" for a b c x
    by (simp add: shouldContinueSimulation_def)
  then show "stepCountRef (performSimulationStep_resume
            \<lparr>call_targetWorker = w, call_simulationType = m\<rparr> (Resolved p) s) =
           stepCountRef s + 1"
    and "length (workerUpdates (performSimulationStep_resume
            \<lparr>call_targetWorker = w, call_simulationType = m\<rparr> (Resolved p) s)) =
           length (workerUpdates s) + 1"
    and "currentWorkerValuesRef (performSimulationStep_resume
            \<lparr>call_targetWorker = w, call_simulationType = m\<rparr> (Resolved p) s) =
           Some ((spread w (calculateNextSimulationValues w m))\<lparr>
                   riskScore := Some (risk_score p),
                   predictedClass := Some (predicted_class p),
                   confidence := Some (pred_confidence p) \<rparr>)"
    using assms by (simp_all add: performSimulationStep_resume_def Let_def spread_annotated)
qed

text \<open>Two timer firings before the first oracle call returns, then both calls resolve.\<close>

lemma overlapping_ticks:
  assumes "running s m w" "currentWorkerValuesRef s = Some w" "intervalRef s \<noteq> None"
    and "shouldContinueSimulation (s\<lparr>stepCountRef := stepCountRef s + 2\<rparr>)
           (spread w (calculateNextSimulationValues w m)) m"
  shows "snd (events [TimerFires, TimerFires, OracleSettles 0 (Resolved p1),
                  OracleSettles 0 (Resolved p2)] (s, [])) = []"
    and "stepCountRef (fst (events [TimerFires, TimerFires, OracleSettles 0 (Resolved p1),
                  OracleSettles 0 (Resolved p2)] (s, []))) = stepCountRef s + 2"
    and "length (workerUpdates (fst (events [TimerFires, TimerFires,
                  OracleSettles 0 (Resolved p1), OracleSettles 0 (Resolved p2)] (s, [])))) =
           length (workerUpdates s) + 2"
    and "currentWorkerValuesRef (fst (events [TimerFires, TimerFires,
                  OracleSettles 0 (Resolved p1), OracleSettles 0 (Resolved p2)] (s, []))) =
           Some ((spread w (calculateNextSimulationValues w m))\<lparr>
                   riskScore := Some (risk_score p2),
                   predictedClass := Some (predicted_class p2),
                   confidence := Some (pred_confidence p2) \<rparr>)"
proof -
  let ?c = "\<lparr>call_targetWorker = w, call_simulationType = m\<rparr>"
  let ?x = "spread w (calculateNextSimulationValues w m)"
  let ?s1 = "performSimulationStep_resume ?c (Resolved p1) s"
  let ?s2 = "performSimulationStep_resume ?c (Resolved p2) ?s1"
  have same: "s\<lparr>currentWorkerValuesRef := Some w\<rparr> = s"
    using assms(2) by simp
  have fire: "timerFires (s, calls) = (s, calls @ [?c])" for calls
    using timer_reenters [OF assms(1,3), of calls] by (simp add: same)
  have c1: "shouldContinueSimulation (s\<lparr>stepCountRef := stepCountRef s + 1\<rparr>) ?x m"
    using assms(4)
      shouldContinue_earlier [where s = s and n = "stepCountRef s + 1" and x = ?x and m = m]
    by simp
  note r1 = resolved_continues [OF c1, of p1]
  have "shouldContinueSimulation (?s1\<lparr>stepCountRef := stepCountRef ?s1 + 1\<rparr>) ?x m =
        shouldContinueSimulation (s\<lparr>stepCountRef := stepCountRef s + 2\<rparr>) ?x m"
    by (rule shouldContinue_stepCount) (simp add: r1(1))
  then have c2: "shouldContinueSimulation (?s1\<lparr>stepCountRef := stepCountRef ?s1 + 1\<rparr>) ?x m"
    using assms(4) by simp
  note r2 = resolved_continues [OF c2, of p2]
  have all: "events [TimerFires, TimerFires, OracleSettles 0 (Resolved p1),
                  OracleSettles 0 (Resolved p2)] (s, []) = (?s2, [])"
    by (simp add: fire oracleSettles_def)
  show "snd (events [TimerFires, TimerFires, OracleSettles 0 (Resolved p1),
                  OracleSettles 0 (Resolved p2)] (s, [])) = []"
    unfolding all by simp
  show "stepCountRef (fst (events [TimerFires, TimerFires, OracleSettles 0 (Resolved p1),
                  OracleSettles 0 (Resolved p2)] (s, []))) = stepCountRef s + 2"
    unfolding all by (simp add: r2(1) r1(1))
  show "length (workerUpdates (fst (events [TimerFires, TimerFires,
                  OracleSettles 0 (Resolved p1), OracleSettles 0 (Resolved p2)] (s, [])))) =
           length (workerUpdates s) + 2"
    unfolding all by (simp add: r2(2) r1(2))
  show "currentWorkerValuesRef (fst (events [TimerFires, TimerFires,
                  OracleSettles 0 (Resolved p1), OracleSettles 0 (Resolved p2)] (s, []))) =
           Some ((spread w (calculateNextSimulationValues w m))\<lparr>
                   riskScore := Some (risk_score p2),
                   predictedClass := Some (predicted_class p2),
                   confidence := Some (pred_confidence p2) \<rparr>)"
    unfolding all by (simp add: r2(3))
qed

text \<open>
  Claim C5, as stated, fails.  In a heat-up run just started, the timer fires twice before
  the first oracle call returns: two calls are in flight at once.  When both have
  returned, the step counter is 2 and two worker updates have been sent, where one tick
  alone gives 1 and one; the cached subject is the same in both cases.  The second firing
  is not without effect.
\<close>

theorem single_flight_counterexample:
  "(let l2 = events [TimerFires, TimerFires] (heatUpRun, []);
        l = events [TimerFires, TimerFires, OracleSettles 0 ok, OracleSettles 0 ok]
              (heatUpRun, []);
        l' = events [TimerFires, OracleSettles 0 ok] (heatUpRun, [])
    in length (snd l2) = 2 \<and>
       stepCountRef (fst l) = 2 \<and> stepCountRef (fst l') = 1 \<and>
       length (workerUpdates (fst l)) = 2 \<and> length (workerUpdates (fst l')) = 1 \<and>
       currentWorkerValuesRef (fst l) = currentWorkerValuesRef (fst l'))"
  by code_simp

text \<open>
  Claim C5, amended.  The loop has no single-flight guard.  While a run is running on its
  cached subject with its timer armed, a timer firing changes no field of the hook state,
  whatever calls are in flight, and puts one more oracle call in flight, made from the
  same cached subject.  When two such calls both resolve and the run goes on, each runs
  its update in full: the step counter advances by two and two worker updates are sent,
  while the cached subject advances by one step.  Ticks do not overlap only if every
  oracle call returns before the timer fires again.
\<close>

theorem no_single_flight:
  assumes "running s m w" "currentWorkerValuesRef s = Some w" "intervalRef s \<noteq> None"
  shows
    "timerFires (s, calls) =
       (s, calls @ [\<lparr>call_targetWorker = w, call_simulationType = m\<rparr>]) \<and>
     (shouldContinueSimulation (s\<lparr>stepCountRef := stepCountRef s + 2\<rparr>)
        (spread w (calculateNextSimulationValues w m)) m \<longrightarrow>
        snd (events [TimerFires, TimerFires, OracleSettles 0 (Resolved p1),
               OracleSettles 0 (Resolved p2)] (s, [])) = [] \<and>
        stepCountRef (fst (events [TimerFires, TimerFires, OracleSettles 0 (Resolved p1),
               OracleSettles 0 (Resolved p2)] (s, []))) = stepCountRef s + 2 \<and>
        length (workerUpdates (fst (events [TimerFires, TimerFires,
               OracleSettles 0 (Resolved p1), OracleSettles 0 (Resolved p2)] (s, [])))) =
          length (workerUpdates s) + 2 \<and>
        currentWorkerValuesRef (fst (events [TimerFires, TimerFires,
               OracleSettles 0 (Resolved p1), OracleSettles 0 (Resolved p2)] (s, []))) =
          Some ((spread w (calculateNextSimulationValues w m))\<lparr>
                  riskScore := Some (risk_score p2),
                  predictedClass := Some (predicted_class p2),
                  confidence := Some (pred_confidence p2) \<rparr>))"
proof -
  have "s\<lparr>currentWorkerValuesRef := Some w\<rparr> = s"
    using assms(2) by simp
  then have "timerFires (s, calls) =
       (s, calls @ [\<lparr>call_targetWorker = w, call_simulationType = m\<rparr>])"
    using timer_reenters [OF assms(1,3), of calls] by simp
  then show ?thesis
    using overlapping_ticks [OF assms, of p1 p2] by simp
qed

theorem no_single_flight_witness:
  "running heatUpRun Heatup johnDoe \<and> currentWorkerValuesRef heatUpRun = Some johnDoe \<and>
   intervalRef heatUpRun \<noteq> None \<and>
   shouldContinueSimulation (heatUpRun\<lparr>stepCountRef := stepCountRef heatUpRun + 2\<rparr>)
     (spread johnDoe (calculateNextSimulationValues johnDoe Heatup)) Heatup \<and>
   timerFires (heatUpRun, [\<lparr>call_targetWorker = johnDoe, call_simulationType = Heatup\<rparr>]) =
     (heatUpRun, [\<lparr>call_targetWorker = johnDoe, call_simulationType = Heatup\<rparr>,
                  \<lparr>call_targetWorker = johnDoe, call_simulationType = Heatup\<rparr>]) \<and>
   stepCountRef (fst (events [TimerFires, TimerFires, OracleSettles 0 ok,
          OracleSettles 0 ok] (heatUpRun, []))) = stepCountRef heatUpRun + 2"
proof -
  have r: "running heatUpRun Heatup johnDoe"
    by code_simp
  have c: "currentWorkerValuesRef heatUpRun = Some johnDoe"
    by code_simp
  have t: "intervalRef heatUpRun \<noteq> None"
    by code_simp
  have g: "shouldContinueSimulation (heatUpRun\<lparr>stepCountRef := stepCountRef heatUpRun + 2\<rparr>)
     (spread johnDoe (calculateNextSimulationValues johnDoe Heatup)) Heatup"
    by code_simp
  show ?thesis
    using r c t g
      no_single_flight [OF r c t,
        of "[\<lparr>call_targetWorker = johnDoe, call_simulationType = Heatup\<rparr>]"
           samplePrediction samplePrediction]
    by (simp add: ok_def)
qed

section \<open>Teardown\<close>

text \<open>
  Claim C9.  Stopping an idle loop changes nothing but the log of stop reasons, which gets
  the new reason.  Stopping twice in a row leaves the state that stopping once leaves,
  but for that log: timer cleared, mode null, inactive, cache cleared, all counters zero.
  Clearing a timer that is already cleared changes nothing.
\<close>

theorem stopSimulation_idempotent:
  "(idle s \<longrightarrow> stopSimulation r s = s\<lparr>stopLog := stopLog s @ [reasonText r]\<rparr>) \<and>
   stopSimulation r2 (stopSimulation r1 s) =
     (stopSimulation r1 s)\<lparr>stopLog := stopLog (stopSimulation r1 s) @ [reasonText r2]\<rparr> \<and>
   idle (stopSimulation r1 s) \<and>
   clearSimulationInterval (clearSimulationInterval s) = clearSimulationInterval s \<and>
   (intervalRef s = None \<longrightarrow> clearSimulationInterval s = s)"
  by (simp add: stopSimulation_def clearSimulationInterval_def idle_def Let_def)

theorem stopSimulation_idempotent_witness:
  "idle idleHook \<and>
   stopSimulation None idleHook = idleHook\<lparr>stopLog := [''Manual stop'']\<rparr> \<and>
   intervalRef idleHook = None \<and> clearSimulationInterval idleHook = idleHook \<and>
   \<not> idle heatUpRun \<and> idle (stopSimulation None heatUpRun) \<and>
   stopSimulation None (stopSimulation None heatUpRun) =
     (stopSimulation None heatUpRun)\<lparr>stopLog :=
        [''Starting new simulation'', ''Manual stop'', ''Manual stop'']\<rparr>"
proof -
  have i: "idle idleHook \<and> intervalRef idleHook = None \<and> stopLog idleHook = []"
    by code_simp
  have h: "\<not> idle heatUpRun \<and>
           stopLog (stopSimulation None heatUpRun) = [''Starting new simulation'', ''Manual stop'']"
    by code_simp
  show ?thesis
    using i h stopSimulation_idempotent [of idleHook None None None]
      stopSimulation_idempotent [of heatUpRun None None None]
    by (simp add: reasonText_def)
qed

section \<open>Reset to baseline\<close>

text \<open>
  Claim C8, as stated, fails when the subject does not resolve.  A heat-up run is started
  and the worker list is then rendered empty; \<open>resetToBaseline\<close> returns at its
  guard without stopping the run, which stays active with its timer armed.
\<close>

theorem resetToBaseline_counterexample:
  "isActiveRef (render [] heatUpRun) \<and> intervalRef (render [] heatUpRun) \<noteq> None \<and>
   resetToBaseline sampleGenerator (render [] heatUpRun) = render [] heatUpRun \<and>
   isActiveRef (resetToBaseline sampleGenerator (render [] heatUpRun))"
  by code_simp

text \<open>
  Claim C8, amended.  When the subject is not found by name, \<open>resetToBaseline\<close> does
  nothing; an active run is not stopped.  When it is found, \<open>resetToBaseline\<close> stops any
  active run and sends one worker update for the subject; merged into any worker, that
  update replaces temperature and humidity by those of a freshly generated profile, sets
  the risk score, the predicted class and the confidence to absent, and leaves every
  other field unchanged.  The captured baseline snapshot is not read.
\<close>

theorem resetToBaseline_frame:
  "(findTargetWorker s = None \<longrightarrow> resetToBaseline gen s = s) \<and>
   (\<forall>tw. findTargetWorker s = Some tw \<longrightarrow>
      \<not> isActiveRef (resetToBaseline gen s) \<and>
      intervalRef (resetToBaseline gen s) = None \<and>
      (\<exists>u. workerUpdates (resetToBaseline gen s) = workerUpdates s @ [(worker_id tw, u)] \<and>
           (\<forall>x. spread x u =
              x\<lparr> temperature := temperature (gen ''John Doe'' (worker_id tw) ''moderate''),
                 humidity := humidity (gen ''John Doe'' (worker_id tw) ''moderate''),
                 riskScore := None, predictedClass := None, confidence := None \<rparr>))) \<and>
   resetToBaseline gen (s\<lparr>baselineValuesRef := b\<rparr>) =
     (resetToBaseline gen s)\<lparr>baselineValuesRef := b\<rparr>"
  by (auto simp: resetToBaseline_def Let_def stopSimulation_def clearSimulationInterval_def
      findTargetWorker_def spread_def key_def noKeys_def split: option.splits)

theorem resetToBaseline_frame_witness:
  "findTargetWorker heatUpRun = Some johnDoe \<and> isActiveRef heatUpRun \<and>
   \<not> isActiveRef (resetToBaseline sampleGenerator heatUpRun) \<and>
   intervalRef (resetToBaseline sampleGenerator heatUpRun) = None \<and>
   findTargetWorker (render [] heatUpRun) = None \<and>
   resetToBaseline sampleGenerator (render [] heatUpRun) = render [] heatUpRun"
proof -
  have f: "findTargetWorker heatUpRun = Some johnDoe \<and> isActiveRef heatUpRun"
    by code_simp
  have n: "findTargetWorker (render [] heatUpRun) = None"
    by code_simp
  show ?thesis
    using f n resetToBaseline_frame [of heatUpRun sampleGenerator]
      resetToBaseline_frame [of "render [] heatUpRun" sampleGenerator]
    by simp
qed

section \<open>The model loaders never reject\<close>

text \<open>The error object of every named failure of the bridge has a message.\<close>

lemma isErrorObject_errorObject:
  "message \<noteq> [] \<Longrightarrow> isErrorObject (errorObject (Error message))"
  by (simp add: isErrorObject_def errorObject_def ownProperty_def)

text \<open>
  \<^verbatim>\<open>predict\<close> of the bridge returns no value exactly when the child was spawned and the
  write to its standard input raised an error.
\<close>

lemma ModelLoader_predict_None:
  "ModelLoader_predict JSON_parse toString stdin outcome inputData = None \<longleftrightarrow>
     inputData ''Temperature'' \<noteq> None \<and> inputData ''Humidity'' \<noteq> None \<and> stdin \<noteq> Written"
  by (cases stdin)
    (auto simp: ModelLoader_predict_def ModelLoader_predict_try_def callPythonScript_def
      split: option.splits sum.splits ProcessOutcome.splits)

text \<open>Whatever the body throws, the handler turns into the error object.\<close>

lemma ModelLoader_predict_caught:
  "ModelLoader_predict_try JSON_parse toString stdin outcome inputData = Some (Inl error)
     \<Longrightarrow> ModelLoader_predict JSON_parse toString stdin outcome inputData
           = Some (errorObject error)"
  by (simp add: ModelLoader_predict_def)

text \<open>Each named failure makes the body throw an error with a message.\<close>

lemma pythonFailure_throws:
  assumes "pythonFailure JSON_parse outcome inputData"
    and "stdin = Written \<or> inputData ''Temperature'' = None \<or> inputData ''Humidity'' = None"
  shows "\<exists>message. message \<noteq> [] \<and>
           ModelLoader_predict_try JSON_parse toString stdin outcome inputData
             = Some (Inl (Error message))"
proof (cases "inputData ''Temperature'' = None \<or> inputData ''Humidity'' = None")
  case True
  then show ?thesis by (simp add: ModelLoader_predict_try_def)
next
  case False
  with assms(2) have w: "stdin = Written" by simp
  show ?thesis
  proof (cases outcome)
    case (ProcessError message)
    with False w show ?thesis
      by (simp add: ModelLoader_predict_try_def callPythonScript_def)
  next
    case ProcessTimeout
    with False w show ?thesis
      by (simp add: ModelLoader_predict_try_def callPythonScript_def)
  next
    case (ProcessClose code outputData errorData)
    show ?thesis
    proof (cases "code = Some 0")
      case nonzero: False
      with False w ProcessClose show ?thesis
        by (simp add: ModelLoader_predict_try_def callPythonScript_def)
    next
      case zero: True
      show ?thesis
      proof (cases "JSON_parse outputData")
        case None
        with False w ProcessClose zero show ?thesis
          by (simp add: ModelLoader_predict_try_def callPythonScript_def)
      next
        case (Some result)
        with assms(1) False ProcessClose zero
        obtain msg where t: "ownProperty result ''error'' = Some (JString msg)" "msg \<noteq> []"
          by (auto simp: pythonFailure_def split: option.splits JSON.splits)
        from t(1) have "result \<noteq> JNull" by (auto simp: ownProperty_def)
        with t have "readError result = Inr (Some (JString msg))"
          by (cases result) (simp_all add: readError_def)
        with False w ProcessClose zero Some t(2) show ?thesis
          by (simp add: ModelLoader_predict_try_def callPythonScript_def truthyValue_def
              newError_def)
      qed
    qed
  qed
qed

text \<open>A reply without a true error field goes through as it is.\<close>

lemma ModelLoader_predict_passes:
  assumes "inputData ''Temperature'' \<noteq> None" "inputData ''Humidity'' \<noteq> None"
    and "JSON_parse outputData = Some reply" "reply \<noteq> JNull"
    and "\<not> truthyValue (ownProperty reply ''error'')"
  shows "ModelLoader_predict JSON_parse toString Written
           (ProcessClose (Some 0) outputData errorData) inputData = Some reply"
proof -
  from assms(4) have "readError reply = Inr (ownProperty reply ''error'')"
    by (cases reply) (simp_all add: readError_def)
  with assms show ?thesis
    by (auto simp: ModelLoader_predict_def ModelLoader_predict_try_def callPythonScript_def
        split: option.splits)
qed

text \<open>The failures of the JavaScript loader.\<close>

lemma jsFailure_resolves:
  "jsFailure readable components inputData
     \<Longrightarrow> isErrorResult (fst (JSModelLoader_predict readable components inputData))"
  by (auto simp: jsFailure_def isErrorResult_def JSModelLoader_predict_def errorResult_def
      truthy_def Let_def split: option.splits)

text \<open>
  Claim C10, as stated, fails for a reply whose error field is the empty string.  The
  child exits with code 0 and its output parses to a reply with risk score 0.67, class
  "warm" and an empty error text; \<open>predict\<close> returns that reply unchanged, which is
  not the error result.  It also fails when the write of the payload to the child's
  standard input raises an error: nothing in the loader handles it, and \<open>predict\<close>
  gives its caller no result at all.
\<close>

theorem predict_counterexample:
  "ownProperty emptyErrorReply ''error'' = Some (JString []) \<and>
   sampleInput ''Temperature'' = Some 30 \<and> sampleInput ''Humidity'' = Some 60 \<and>
   ModelLoader_predict sampleParse sampleToString Written
       (ProcessClose (Some 0) ''reply'' []) sampleInput = Some emptyErrorReply \<and>
   \<not> isErrorObject emptyErrorReply \<and>
   ModelLoader_predict sampleParse sampleToString (WriteError ''write EPIPE'')
       (ProcessClose (Some 1) [] ''boom'') sampleInput = None"
  by (simp add: emptyErrorReply_def sampleInput_def sampleParse_def ModelLoader_predict_def
      ModelLoader_predict_try_def callPythonScript_def isErrorObject_def ownProperty_def
      readError_def truthyValue_def)

text \<open>
  Claim C10, amended.  Provided that writing the payload to the child's standard input
  raises no error, or that Temperature or Humidity is missing (the child is then never
  spawned), \<open>predict\<close> of the Python bridge always resolves, and it never rejects:
  whatever its body throws is caught and turned into the error object.  On each of its
  failures, namely Temperature or Humidity missing, the child cannot be started, it exits
  with a code other than 0, its output cannot be parsed, it times out, or its reply
  carries an error field that is a non-empty string, it resolves with risk score 0, class
  "error", confidence 0 and an error text that is not empty.  A reply that is not
  \<^verbatim>\<open>null\<close> and whose error field is absent, empty or otherwise false is returned as it
  is.  \<open>predict\<close> of the JavaScript loader resolves with such an error result when the
  model cannot be loaded or Temperature or Humidity is missing.
\<close>

theorem predict_failures_resolve:
  "(ModelLoader_predict JSON_parse toString stdin outcome inputData = None \<longleftrightarrow>
      inputData ''Temperature'' \<noteq> None \<and> inputData ''Humidity'' \<noteq> None \<and> stdin \<noteq> Written) \<and>
   (\<forall>error. ModelLoader_predict_try JSON_parse toString stdin outcome inputData
               = Some (Inl error) \<longrightarrow>
            ModelLoader_predict JSON_parse toString stdin outcome inputData
               = Some (errorObject error)) \<and>
   (pythonFailure JSON_parse outcome inputData \<and>
    (stdin = Written \<or> inputData ''Temperature'' = None \<or> inputData ''Humidity'' = None) \<longrightarrow>
      (\<exists>error. ModelLoader_predict_try JSON_parse toString stdin outcome inputData
                 = Some (Inl error) \<and>
               ModelLoader_predict JSON_parse toString stdin outcome inputData
                 = Some (errorObject error) \<and>
               isErrorObject (errorObject error))) \<and>
   (inputData ''Temperature'' \<noteq> None \<and> inputData ''Humidity'' \<noteq> None \<and>
    JSON_parse outputData = Some reply \<and> reply \<noteq> JNull \<and>
    \<not> truthyValue (ownProperty reply ''error'') \<longrightarrow>
      ModelLoader_predict JSON_parse toString Written
          (ProcessClose (Some 0) outputData errorData) inputData = Some reply) \<and>
   (jsFailure readable components inputData \<longrightarrow>
      isErrorResult (fst (JSModelLoader_predict readable components inputData)))"
proof (intro conjI allI impI)
  show "ModelLoader_predict JSON_parse toString stdin outcome inputData = None \<longleftrightarrow>
      inputData ''Temperature'' \<noteq> None \<and> inputData ''Humidity'' \<noteq> None \<and> stdin \<noteq> Written"
    by (rule ModelLoader_predict_None)
next
  fix error
  assume "ModelLoader_predict_try JSON_parse toString stdin outcome inputData
            = Some (Inl error)"
  then show "ModelLoader_predict JSON_parse toString stdin outcome inputData
               = Some (errorObject error)"
    by (rule ModelLoader_predict_caught)
next
  assume a: "pythonFailure JSON_parse outcome inputData \<and>
    (stdin = Written \<or> inputData ''Temperature'' = None \<or> inputData ''Humidity'' = None)"
  then obtain message where m: "message \<noteq> []"
      "ModelLoader_predict_try JSON_parse toString stdin outcome inputData
         = Some (Inl (Error message))"
    using pythonFailure_throws [of JSON_parse outcome inputData stdin toString] by blast
  from m(2) have "ModelLoader_predict JSON_parse toString stdin outcome inputData
         = Some (errorObject (Error message))"
    by (rule ModelLoader_predict_caught)
  moreover from m(1) have "isErrorObject (errorObject (Error message))"
    by (rule isErrorObject_errorObject)
  ultimately show "\<exists>error. ModelLoader_predict_try JSON_parse toString stdin outcome inputData
                 = Some (Inl error) \<and>
               ModelLoader_predict JSON_parse toString stdin outcome inputData
                 = Some (errorObject error) \<and>
               isErrorObject (errorObject error)"
    using m(2) by blast
next
  assume "inputData ''Temperature'' \<noteq> None \<and> inputData ''Humidity'' \<noteq> None \<and>
    JSON_parse outputData = Some reply \<and> reply \<noteq> JNull \<and>
    \<not> truthyValue (ownProperty reply ''error'')"
  then show "ModelLoader_predict JSON_parse toString Written
          (ProcessClose (Some 0) outputData errorData) inputData = Some reply"
    using ModelLoader_predict_passes by blast
next
  assume "jsFailure readable components inputData"
  then show "isErrorResult (fst (JSModelLoader_predict readable components inputData))"
    by (rule jsFailure_resolves)
qed

theorem predict_failures_resolve_witness:
  "pythonFailure sampleParse ProcessTimeout sampleInput \<and>
   ModelLoader_predict sampleParse sampleToString Written ProcessTimeout sampleInput =
     Some (JObject [(''risk_score'', JNumber 0), (''predicted_class'', JString ''error''),
                    (''confidence'', JNumber 0),
                    (''error'', JString ''Python script timed out'')]) \<and>
   pythonFailure sampleParse (ProcessClose (Some 0) ''failed'' []) sampleInput \<and>
   ModelLoader_predict sampleParse sampleToString Written
       (ProcessClose (Some 0) ''failed'' []) sampleInput =
     Some (JObject [(''risk_score'', JNumber 0), (''predicted_class'', JString ''error''),
                    (''confidence'', JNumber 0), (''error'', JString ''Model not loaded'')]) \<and>
   isErrorObject (errorObject (Error ''Model not loaded'')) \<and>
   ModelLoader_predict_try sampleParse sampleToString Written
       (ProcessClose (Some 0) ''null'' []) sampleInput =
     Some (Inl (Error (''Cannot read properties of null (reading '' @ [CHR 0x27] @ ''error''
                         @ [CHR 0x27] @ '')''))) \<and>
   ModelLoader_predict sampleParse sampleToString Written
       (ProcessClose (Some 0) ''null'' []) sampleInput =
     Some (errorObject (Error (''Cannot read properties of null (reading '' @ [CHR 0x27]
                                 @ ''error'' @ [CHR 0x27] @ '')''))) \<and>
   sampleParse ''reply'' = Some emptyErrorReply \<and>
   \<not> truthyValue (ownProperty emptyErrorReply ''error'') \<and>
   ModelLoader_predict sampleParse sampleToString Written
       (ProcessClose (Some 0) ''reply'' []) sampleInput = Some emptyErrorReply \<and>
   ModelLoader_predict sampleParse sampleToString (WriteError ''write EPIPE'') ProcessTimeout
       (sampleInput(''Humidity'' := None)) \<noteq> None \<and>
   jsFailure (\<lambda>file. False) None sampleInput \<and>
   isErrorResult (fst (JSModelLoader_predict (\<lambda>file. False) None sampleInput))"
proof -
  have a: "pythonFailure sampleParse ProcessTimeout sampleInput"
    by (simp add: pythonFailure_def)
  have b: "pythonFailure sampleParse (ProcessClose (Some 0) ''failed'' []) sampleInput"
    by (simp add: pythonFailure_def sampleParse_def failedReply_def ownProperty_def)
  have c: "ModelLoader_predict_try sampleParse sampleToString Written ProcessTimeout sampleInput
             = Some (Inl (Error ''Python script timed out''))"
    by (simp add: ModelLoader_predict_try_def callPythonScript_def sampleInput_def)
  have d: "ModelLoader_predict_try sampleParse sampleToString Written
             (ProcessClose (Some 0) ''failed'' []) sampleInput
             = Some (Inl (Error ''Model not loaded''))"
    by (simp add: ModelLoader_predict_try_def callPythonScript_def sampleInput_def
        sampleParse_def failedReply_def readError_def ownProperty_def truthyValue_def
        newError_def)
  have e: "ModelLoader_predict_try sampleParse sampleToString Written
       (ProcessClose (Some 0) ''null'' []) sampleInput =
     Some (Inl (Error (''Cannot read properties of null (reading '' @ [CHR 0x27] @ ''error''
                         @ [CHR 0x27] @ '')'')))"
    by (simp add: ModelLoader_predict_try_def callPythonScript_def sampleInput_def
        sampleParse_def readError_def)
  have f: "sampleParse ''reply'' = Some emptyErrorReply"
      "emptyErrorReply \<noteq> JNull"
      "\<not> truthyValue (ownProperty emptyErrorReply ''error'')"
      "sampleInput ''Temperature'' \<noteq> None" "sampleInput ''Humidity'' \<noteq> None"
    by (simp_all add: sampleParse_def emptyErrorReply_def ownProperty_def truthyValue_def
        sampleInput_def)
  have g: "jsFailure (\<lambda>file. False) None sampleInput"
    by (simp add: jsFailure_def loadModel_def)
  note t1 = predict_failures_resolve
      [where JSON_parse = sampleParse and toString = sampleToString and stdin = Written
         and outcome = ProcessTimeout and inputData = sampleInput
         and outputData = "''reply''" and reply = emptyErrorReply and errorData = "[]"
         and readable = "\<lambda>file. False" and components = None]
  note t2 = predict_failures_resolve
      [where JSON_parse = sampleParse and toString = sampleToString and stdin = Written
         and outcome = "ProcessClose (Some 0) ''failed'' []" and inputData = sampleInput]
  note t3 = predict_failures_resolve
      [where JSON_parse = sampleParse and toString = sampleToString and stdin = Written
         and outcome = "ProcessClose (Some 0) ''null'' []" and inputData = sampleInput]
  note t4 = predict_failures_resolve
      [where JSON_parse = sampleParse and toString = sampleToString
         and stdin = "WriteError ''write EPIPE''"
         and outcome = ProcessTimeout and inputData = "sampleInput(''Humidity'' := None)"]
  have r1: "ModelLoader_predict sampleParse sampleToString Written ProcessTimeout sampleInput
              = Some (errorObject (Error ''Python script timed out''))"
    using t1 [THEN conjunct2, THEN conjunct1] c by blast
  have r2: "ModelLoader_predict sampleParse sampleToString Written
              (ProcessClose (Some 0) ''failed'' []) sampleInput
              = Some (errorObject (Error ''Model not loaded''))"
    using t2 [THEN conjunct2, THEN conjunct1] d by blast
  have r2': "isErrorObject (errorObject (Error ''Model not loaded''))"
    using t2 [THEN conjunct2, THEN conjunct2, THEN conjunct1] b d by auto
  have r3: "ModelLoader_predict sampleParse sampleToString Written
       (ProcessClose (Some 0) ''null'' []) sampleInput =
     Some (errorObject (Error (''Cannot read properties of null (reading '' @ [CHR 0x27]
                                 @ ''error'' @ [CHR 0x27] @ '')'')))"
    using t3 [THEN conjunct2, THEN conjunct1] e by blast
  have r4: "ModelLoader_predict sampleParse sampleToString Written
       (ProcessClose (Some 0) ''reply'' []) sampleInput = Some emptyErrorReply"
    using t1 [THEN conjunct2, THEN conjunct2, THEN conjunct2, THEN conjunct1] f by blast
  have r5: "ModelLoader_predict sampleParse sampleToString (WriteError ''write EPIPE'')
       ProcessTimeout (sampleInput(''Humidity'' := None)) \<noteq> None"
    using t4 [THEN conjunct1] by simp
  have r6: "isErrorResult (fst (JSModelLoader_predict (\<lambda>file. False) None sampleInput))"
    using t1 [THEN conjunct2, THEN conjunct2, THEN conjunct2, THEN conjunct2] g by blast
  show ?thesis
    using a b e f(1,3) g r1 r2 r2' r3 r4 r5 r6 by (simp add: errorObject_def)
qed

end
